theory Spec2Isabelle
  imports Main
begin

section \<open>Errors, call sites and cancellable contexts\<close>

text \<open>
  Both packages of the repository (\<^verbatim>\<open>rungroup\<close>, called v1 below, and \<^verbatim>\<open>rungroup/v2\<close>)
  are embedded. A Go \<^verbatim>\<open>error\<close> value is an \<open>err option\<close>, \<open>None\<close> being \<^verbatim>\<open>nil\<close>.
  \<open>Canceled\<close> and \<open>DeadlineExceeded\<close> are the sentinels of the standard \<^verbatim>\<open>context\<close>
  package, \<open>ErrClosed\<close> is the sentinel of v2, \<open>Failure n\<close> is any other error value
  (such as the \<^verbatim>\<open>ErrStop\<close> of the tests), and \<open>Traced e cs\<close> is what
  \<^verbatim>\<open>stacktrace.NewError(e, cs)\<close> builds: an error that records the call site \<open>cs\<close>
  and unwraps to \<open>e\<close>.
\<close>

type_synonym callers = string

datatype err = Canceled | DeadlineExceeded | ErrClosed | Failure string | Traced err callers

text \<open>
  \<^verbatim>\<open>stacktrace.NewError\<close> belongs to \<^verbatim>\<open>github.com/goaux/stacktrace/v2\<close>. It is always
  called with a non-nil error here, and the tests of v2 (\<^verbatim>\<open>assertErrorIs\<close>) and its
  example output \<^verbatim>\<open>testing (group_test.go:30 ...)\<close> fix what matters: the result
  carries the call site and \<^verbatim>\<open>errors.Is\<close> sees through it.
\<close>

definition NewError :: "err \<Rightarrow> callers \<Rightarrow> err" where
  "NewError e cs = Traced e cs"

text \<open>\<^verbatim>\<open>errors.Is(e, target)\<close>: equality, or equality somewhere down the unwrap chain.\<close>

fun unwrap_Is :: "err \<Rightarrow> err \<Rightarrow> bool" where
  "unwrap_Is (Traced e cs) target = (Traced e cs = target \<or> unwrap_Is e target)"
| "unwrap_Is e target = (e = target)"

definition errors_Is :: "err option \<Rightarrow> err option \<Rightarrow> bool" where
  "errors_Is e target =
     (case e of None \<Rightarrow> target = None
      | Some x \<Rightarrow> (case target of None \<Rightarrow> False | Some t \<Rightarrow> unwrap_Is x t))"

text \<open>
  A cancellable context is represented by its cause: \<open>None\<close> while it is not cancelled
  (\<^verbatim>\<open>context.Cause\<close> and \<^verbatim>\<open>ctx.Err\<close> return \<^verbatim>\<open>nil\<close>, \<^verbatim>\<open>ctx.Done()\<close> blocks), \<open>Some c\<close> once
  it is. \<^verbatim>\<open>context.Background()\<close> is never cancelled. A context derived from a parent that
  is already cancelled starts out cancelled with the parent's cause.
\<close>

type_synonym "context" = "err option"

definition Background :: "context" where
  "Background = None"

definition WithCancelCause :: "context \<Rightarrow> context" where
  "WithCancelCause parent = parent"

text \<open>
  The \<^verbatim>\<open>context.CancelCauseFunc\<close> of a context: the first call records the cause (a \<^verbatim>\<open>nil\<close>
  cause is recorded as \<^verbatim>\<open>context.Canceled\<close>), every later call does nothing.
\<close>

definition cancelCause :: "err option \<Rightarrow> context \<Rightarrow> context" where
  "cancelCause cause c =
     (case c of
        Some e \<Rightarrow> Some e
      | None \<Rightarrow> Some (case cause of None \<Rightarrow> Canceled | Some e \<Rightarrow> e))"

text \<open>
  What a call does: it panics, it cannot proceed yet (a \<^verbatim>\<open>Wait\<close> with tasks outstanding, or
  an event of a goroutine that is not there), or it returns.
\<close>

datatype 'a result = Panic string | Blocked | Returned 'a

fun and_then :: "'a result \<Rightarrow> ('a \<Rightarrow> 'b result) \<Rightarrow> 'b result" where
  "and_then (Panic m) f = Panic m"
| "and_then Blocked f = Blocked"
| "and_then (Returned x) f = f x"

section \<open>rungroup/v2 (\<^verbatim>\<open>v2/group.go\<close>)\<close>

text \<open>
  The function a goroutine of the group runs. \<open>UserTask\<close> is the closure of \<^verbatim>\<open>Go\<close>
  around a plain task; \<open>OnFinish\<close>, \<open>OnSuccess\<close> and \<open>OnError\<close> are the closures that
  \<^verbatim>\<open>GoCancelOnFinish\<close>, \<^verbatim>\<open>GoCancelOnSuccess\<close> and \<^verbatim>\<open>GoCancelOnError\<close> hand to \<^verbatim>\<open>Go\<close>,
  each with the call site it captured.
\<close>

datatype task_v2 = UserTask | OnFinish callers | OnSuccess callers | OnError callers

text \<open>
  A goroutine is either started by \<^verbatim>\<open>waitgroup.Sync.Go\<close> (\<open>Tracked\<close>: the counter was
  incremented for it and is decremented when it ends), or by the bare \<^verbatim>\<open>go\<close> statement of
  \<^verbatim>\<open>SetTimeout\<close> (\<open>Timer\<close>, with the duration and the captured call site), or it has ended.
\<close>

datatype goroutine_v2 = Tracked task_v2 | Timer nat callers | Exited

text \<open>
  The struct has the fields \<^verbatim>\<open>mu\<close>, \<^verbatim>\<open>g\<close>, \<^verbatim>\<open>ctx\<close> and \<^verbatim>\<open>cancel\<close>. Every method is one atomic
  step of the model, so the mutex has no field. \<open>g_v2\<close> is the counter of the
  \<^verbatim>\<open>waitgroup.Sync\<close>. \<open>ctx_v2\<close> is \<open>None\<close> for the \<^verbatim>\<open>nil\<close> context of a zero value; \<^verbatim>\<open>cancel\<close>
  is assigned together with \<^verbatim>\<open>ctx\<close> and is its cancel function, so it is \<^verbatim>\<open>nil\<close> exactly
  when \<open>ctx_v2\<close> is \<open>None\<close>. \<open>goroutines_v2\<close> and \<open>waiters_v2\<close> are not fields of the struct:
  they are the goroutines started by the group and the number of callers inside \<^verbatim>\<open>Wait\<close>.
\<close>

record Group_v2 =
  g_v2 :: nat
  ctx_v2 :: "context option"
  goroutines_v2 :: "goroutine_v2 list"
  waiters_v2 :: nat

definition zero_v2 :: Group_v2 where
  "zero_v2 = \<lparr>g_v2 = 0, ctx_v2 = None, goroutines_v2 = [], waiters_v2 = 0\<rparr>"

definition New_v2 :: "context \<Rightarrow> Group_v2" where
  "New_v2 parent = \<lparr>g_v2 = 0, ctx_v2 = Some (WithCancelCause parent), goroutines_v2 = [], waiters_v2 = 0\<rparr>"

definition getContext :: "Group_v2 \<Rightarrow> Group_v2" where
  "getContext gr =
     (if ctx_v2 gr = None then gr\<lparr>ctx_v2 := Some (WithCancelCause Background)\<rparr> else gr)"

text \<open>A call of the field \<^verbatim>\<open>gr.cancel\<close>; calling a \<^verbatim>\<open>nil\<close> function panics.\<close>

definition cancel_v2 :: "err \<Rightarrow> Group_v2 \<Rightarrow> Group_v2 result" where
  "cancel_v2 e gr =
     (case ctx_v2 gr of
        None \<Rightarrow> Panic ''invalid memory address or nil pointer dereference''
      | Some c \<Rightarrow> Returned (gr\<lparr>ctx_v2 := Some (cancelCause (Some e) c)\<rparr>))"

definition Cancel_v2 :: "err option \<Rightarrow> callers \<Rightarrow> Group_v2 \<Rightarrow> Group_v2 result" where
  "Cancel_v2 cause cs gr =
     (let gr1 = getContext gr;
          cause1 = (case cause of None \<Rightarrow> Canceled | Some e \<Rightarrow> e)
      in cancel_v2 (NewError cause1 cs) gr1)"

text \<open>\<^verbatim>\<open>Close\<close> is called from \<open>cs\<close>; the \<^verbatim>\<open>Cancel\<close> inside it captures the frame of \<^verbatim>\<open>Close\<close>.\<close>

definition Close_site :: callers where
  "Close_site = ''group.go:94 Close''"

definition Close_v2 :: "callers \<Rightarrow> Group_v2 \<Rightarrow> Group_v2 result" where
  "Close_v2 cs gr = Cancel_v2 (Some (NewError ErrClosed cs)) Close_site gr"

text \<open>
  \<^verbatim>\<open>waitgroup.Sync\<close> belongs to \<^verbatim>\<open>github.com/goaux/waitgroup\<close>: a \<^verbatim>\<open>sync.WaitGroup\<close> with a
  \<^verbatim>\<open>Go\<close> method, which counts the goroutine and starts it, and a \<^verbatim>\<open>Wait\<close>, which blocks
  until the counter is zero.
\<close>

definition Sync_Go_v2 :: "task_v2 \<Rightarrow> Group_v2 \<Rightarrow> Group_v2" where
  "Sync_Go_v2 t gr = gr\<lparr>g_v2 := g_v2 gr + 1, goroutines_v2 := goroutines_v2 gr @ [Tracked t]\<rparr>"

text \<open>
  \<^verbatim>\<open>Go\<close> with the function it is given: a plain task of the caller, or the closure of
  one of the three policy methods below.
\<close>

definition Go_v2 :: "task_v2 \<Rightarrow> Group_v2 \<Rightarrow> Group_v2 result" where
  "Go_v2 t gr = Returned (Sync_Go_v2 t (getContext gr))"

definition GoCancelOnFinish :: "callers \<Rightarrow> Group_v2 \<Rightarrow> Group_v2 result" where
  "GoCancelOnFinish cs gr = Go_v2 (OnFinish cs) gr"

definition GoCancelOnSuccess :: "callers \<Rightarrow> Group_v2 \<Rightarrow> Group_v2 result" where
  "GoCancelOnSuccess cs gr = Go_v2 (OnSuccess cs) gr"

definition GoCancelOnError :: "callers \<Rightarrow> Group_v2 \<Rightarrow> Group_v2 result" where
  "GoCancelOnError cs gr = Go_v2 (OnError cs) gr"

text \<open>\<^verbatim>\<open>SetTimeout\<close> starts its goroutine with a bare \<^verbatim>\<open>go\<close> statement: \<^verbatim>\<open>gr.g\<close> is not touched.\<close>

definition SetTimeout :: "nat \<Rightarrow> callers \<Rightarrow> Group_v2 \<Rightarrow> Group_v2 result" where
  "SetTimeout timeout cs gr =
     (let gr1 = getContext gr
      in Returned (gr1\<lparr>goroutines_v2 := goroutines_v2 gr1 @ [Timer timeout cs]\<rparr>))"

text \<open>
  What the closure of a goroutine does once the user's task has returned \<open>r\<close> (a plain
  task returns nothing, \<open>r\<close> is ignored for it).
\<close>

fun after_task_v2 :: "task_v2 \<Rightarrow> err option \<Rightarrow> Group_v2 \<Rightarrow> Group_v2 result" where
  "after_task_v2 UserTask r gr = Returned gr"
| "after_task_v2 (OnFinish cs) r gr =
     cancel_v2 (NewError (case r of None \<Rightarrow> Canceled | Some e \<Rightarrow> e) cs) gr"
| "after_task_v2 (OnSuccess cs) r gr =
     (case r of None \<Rightarrow> cancel_v2 (NewError Canceled cs) gr | Some e \<Rightarrow> Returned gr)"
| "after_task_v2 (OnError cs) r gr =
     (case r of None \<Rightarrow> Returned gr | Some e \<Rightarrow> cancel_v2 (NewError e cs) gr)"

text \<open>
  \<^verbatim>\<open>Wait\<close> in two halves: up to the blocking \<^verbatim>\<open>gr.g.Wait()\<close>, and from there on. The second
  half can run only when the counter is zero.
\<close>

definition Wait_enter_v2 :: "Group_v2 \<Rightarrow> Group_v2 result" where
  "Wait_enter_v2 gr = Returned (getContext gr)"

definition Wait_leave_v2 :: "Group_v2 \<Rightarrow> (err option \<times> Group_v2) result" where
  "Wait_leave_v2 gr =
     (if g_v2 gr \<noteq> 0 then Blocked
      else case ctx_v2 gr of
             None \<Rightarrow> Panic ''invalid memory address or nil pointer dereference''
           | Some c \<Rightarrow> Returned (c, gr))"

definition Wait_v2 :: "Group_v2 \<Rightarrow> (err option \<times> Group_v2) result" where
  "Wait_v2 gr = and_then (Wait_enter_v2 gr) Wait_leave_v2"

subsection \<open>Executions of v2\<close>

text \<open>
  An execution is a sequence of events: calls of the methods (by the owner or by a running
  task, the model does not care which), the return of \<^verbatim>\<open>Wait\<close> in a caller blocked in it,
  the return of the user's task in goroutine \<open>i\<close> with outcome \<open>r\<close>, and the two branches of
  the \<^verbatim>\<open>select\<close> of a timer goroutine. An event that cannot happen in the state is
  \<open>Blocked\<close>.
\<close>

datatype event_v2 =
    CallGo
  | CallGoCancelOnFinish callers
  | CallGoCancelOnSuccess callers
  | CallGoCancelOnError callers
  | CallCancel "err option" callers
  | CallClose callers
  | CallSetTimeout nat callers
  | CallWait
  | WaitReturns
  | TaskReturns nat "err option"
  | TimerFires nat
  | TimerSeesDone nat

text \<open>\<^verbatim>\<open>sync.WaitGroup.Done\<close>, which panics on a negative counter.\<close>

definition Sync_Done_v2 :: "Group_v2 \<Rightarrow> Group_v2 result" where
  "Sync_Done_v2 gr =
     (if g_v2 gr = 0 then Panic ''sync: negative WaitGroup counter''
      else Returned (gr\<lparr>g_v2 := g_v2 gr - 1\<rparr>))"

definition exit_v2 :: "nat \<Rightarrow> Group_v2 \<Rightarrow> Group_v2" where
  "exit_v2 i gr = gr\<lparr>goroutines_v2 := (goroutines_v2 gr)[i := Exited]\<rparr>"

definition goroutine_v2 :: "nat \<Rightarrow> Group_v2 \<Rightarrow> goroutine_v2" where
  "goroutine_v2 i gr = (if i < length (goroutines_v2 gr) then goroutines_v2 gr ! i else Exited)"

text \<open>The goroutine started by \<^verbatim>\<open>waitgroup.Sync.Go\<close>: run the closure, then \<^verbatim>\<open>Done\<close>.\<close>

definition task_returns_v2 :: "nat \<Rightarrow> err option \<Rightarrow> Group_v2 \<Rightarrow> Group_v2 result" where
  "task_returns_v2 i r gr =
     (case goroutine_v2 i gr of
        Tracked t \<Rightarrow> and_then (after_task_v2 t r gr) (\<lambda>gr1. Sync_Done_v2 (exit_v2 i gr1))
      | Timer d cs \<Rightarrow> Blocked
      | Exited \<Rightarrow> Blocked)"

text \<open>The goroutine of \<^verbatim>\<open>SetTimeout\<close>, branch \<^verbatim>\<open>case <-t.C\<close>.\<close>

definition timer_fires_v2 :: "nat \<Rightarrow> Group_v2 \<Rightarrow> Group_v2 result" where
  "timer_fires_v2 i gr =
     (case goroutine_v2 i gr of
        Timer d cs \<Rightarrow>
          and_then (cancel_v2 (NewError DeadlineExceeded cs) gr) (\<lambda>gr1. Returned (exit_v2 i gr1))
      | Tracked t \<Rightarrow> Blocked
      | Exited \<Rightarrow> Blocked)"

text \<open>The goroutine of \<^verbatim>\<open>SetTimeout\<close>, branch \<^verbatim>\<open>case <-ctx.Done()\<close>: ready once cancelled.\<close>

definition timer_sees_done_v2 :: "nat \<Rightarrow> Group_v2 \<Rightarrow> Group_v2 result" where
  "timer_sees_done_v2 i gr =
     (case goroutine_v2 i gr of
        Timer d cs \<Rightarrow>
          (case ctx_v2 gr of
             Some (Some c) \<Rightarrow> Returned (exit_v2 i gr)
           | Some None \<Rightarrow> Blocked
           | None \<Rightarrow> Blocked)
      | Tracked t \<Rightarrow> Blocked
      | Exited \<Rightarrow> Blocked)"

definition call_wait_v2 :: "Group_v2 \<Rightarrow> Group_v2 result" where
  "call_wait_v2 gr =
     and_then (Wait_enter_v2 gr) (\<lambda>gr1. Returned (gr1\<lparr>waiters_v2 := waiters_v2 gr1 + 1\<rparr>))"

definition wait_returns_v2 :: "Group_v2 \<Rightarrow> (err option \<times> Group_v2) result" where
  "wait_returns_v2 gr =
     (if waiters_v2 gr = 0 then Blocked
      else and_then (Wait_leave_v2 gr)
             (\<lambda>(r, gr1). Returned (r, gr1\<lparr>waiters_v2 := waiters_v2 gr1 - 1\<rparr>)))"

text \<open>One event. The list is what the event makes visible: the value a \<^verbatim>\<open>Wait\<close> returns.\<close>

definition silent :: "'s result \<Rightarrow> (err option list \<times> 's) result" where
  "silent x = and_then x (\<lambda>gr. Returned ([], gr))"

definition visible :: "(err option \<times> 's) result \<Rightarrow> (err option list \<times> 's) result" where
  "visible x = and_then x (\<lambda>(r, gr). Returned ([r], gr))"

fun step_v2 :: "event_v2 \<Rightarrow> Group_v2 \<Rightarrow> (err option list \<times> Group_v2) result" where
  "step_v2 CallGo gr = silent (Go_v2 UserTask gr)"
| "step_v2 (CallGoCancelOnFinish cs) gr = silent (GoCancelOnFinish cs gr)"
| "step_v2 (CallGoCancelOnSuccess cs) gr = silent (GoCancelOnSuccess cs gr)"
| "step_v2 (CallGoCancelOnError cs) gr = silent (GoCancelOnError cs gr)"
| "step_v2 (CallCancel cause cs) gr = silent (Cancel_v2 cause cs gr)"
| "step_v2 (CallClose cs) gr = silent (Close_v2 cs gr)"
| "step_v2 (CallSetTimeout d cs) gr = silent (SetTimeout d cs gr)"
| "step_v2 CallWait gr = silent (call_wait_v2 gr)"
| "step_v2 WaitReturns gr = visible (wait_returns_v2 gr)"
| "step_v2 (TaskReturns i r) gr = silent (task_returns_v2 i r gr)"
| "step_v2 (TimerFires i) gr = silent (timer_fires_v2 i gr)"
| "step_v2 (TimerSeesDone i) gr = silent (timer_sees_done_v2 i gr)"

fun exec_v2 :: "event_v2 list \<Rightarrow> err option list \<times> Group_v2 \<Rightarrow> (err option list \<times> Group_v2) result" where
  "exec_v2 [] s = Returned s"
| "exec_v2 (e # es) (out, gr) =
     (case step_v2 e gr of
        Panic m \<Rightarrow> Panic m
      | Blocked \<Rightarrow> Blocked
      | Returned (new, gr1) \<Rightarrow> exec_v2 es (out @ new, gr1))"

section \<open>rungroup v1 (\<^verbatim>\<open>group.go\<close> of the module root)\<close>

text \<open>
  The task a goroutine of a v1 group runs: a task of the user, or the task that
  \<^verbatim>\<open>NewTimeout\<close> registers (it waits on a context derived from the group's with the
  timeout, and returns that context's error).
\<close>

datatype task_v1 = UserTask_v1 | TimeoutTask nat

datatype goroutine_v1 = Running task_v1 | Ended

text \<open>
  The fields of the struct: \<^verbatim>\<open>ctx\<close> (\<open>None\<close> when \<^verbatim>\<open>nil\<close>; the context is represented
  by its \<^verbatim>\<open>Err()\<close>), \<^verbatim>\<open>cancel\<close> (whether it is non-nil; called, it cancels \<^verbatim>\<open>ctx\<close>),
  \<^verbatim>\<open>wg\<close> (the counter), \<^verbatim>\<open>errOnce\<close> (whether the \<^verbatim>\<open>sync.Once\<close> has run), \<^verbatim>\<open>err\<close> and
  \<^verbatim>\<open>doNotReuse\<close>. \<open>goroutines_v1\<close> and \<open>waiters_v1\<close> are the goroutines started by the
  group and the number of callers inside \<^verbatim>\<open>Wait\<close>.
\<close>

record Group_v1 =
  ctx_v1 :: "context option"
  cancel_v1 :: bool
  wg_v1 :: nat
  errOnce_v1 :: bool
  err_v1 :: "err option"
  doNotReuse_v1 :: bool
  goroutines_v1 :: "goroutine_v1 list"
  waiters_v1 :: nat


text \<open>\<^verbatim>\<open>context.WithCancel\<close>: as \<open>WithCancelCause\<close>, its cancel function records \<^verbatim>\<open>Canceled\<close>.\<close>

definition WithCancel :: "context \<Rightarrow> context" where
  "WithCancel parent = parent"

definition New_v1 :: "context \<Rightarrow> Group_v1" where
  "New_v1 ctx = \<lparr>ctx_v1 = Some (WithCancel ctx), cancel_v1 = True, wg_v1 = 0, errOnce_v1 = False,
     err_v1 = None, doNotReuse_v1 = False, goroutines_v1 = [], waiters_v1 = 0\<rparr>"

definition checkInitialized :: "Group_v1 \<Rightarrow> unit result" where
  "checkInitialized g =
     (if \<not> cancel_v1 g
      then Panic ''A Group must be created by New or NewTimeout, zero value must not be used.''
      else Returned ())"

definition checkReuse :: "Group_v1 \<Rightarrow> unit result" where
  "checkReuse g =
     (if doNotReuse_v1 g then Panic ''A Group must must not be reused.'' else Returned ())"

text \<open>A call of the field \<^verbatim>\<open>g.cancel\<close>.\<close>

definition call_cancel_v1 :: "Group_v1 \<Rightarrow> Group_v1 result" where
  "call_cancel_v1 g =
     (if \<not> cancel_v1 g then Panic ''invalid memory address or nil pointer dereference''
      else Returned (g\<lparr>ctx_v1 := map_option (cancelCause None) (ctx_v1 g)\<rparr>))"

text \<open>\<^verbatim>\<open>errOnce.Do\<close> runs its function on the first call only.\<close>

definition setResult :: "err option \<Rightarrow> Group_v1 \<Rightarrow> Group_v1 result" where
  "setResult e g =
     (if errOnce_v1 g then Returned g
      else call_cancel_v1 (g\<lparr>errOnce_v1 := True, err_v1 := e\<rparr>))"

definition Cancel_v1 :: "Group_v1 \<Rightarrow> Group_v1 result" where
  "Cancel_v1 g = and_then (checkInitialized g) (\<lambda>_. setResult (Some Canceled) g)"

definition Go_v1 :: "task_v1 \<Rightarrow> Group_v1 \<Rightarrow> Group_v1 result" where
  "Go_v1 t g =
     and_then (checkInitialized g) (\<lambda>_.
     and_then (checkReuse g) (\<lambda>_.
       Returned (g\<lparr>wg_v1 := wg_v1 g + 1, goroutines_v1 := goroutines_v1 g @ [Running t]\<rparr>)))"

definition NewTimeout :: "context \<Rightarrow> nat \<Rightarrow> Group_v1 result" where
  "NewTimeout ctx d = Go_v1 (TimeoutTask d) (New_v1 ctx)"

definition Wait_enter_v1 :: "Group_v1 \<Rightarrow> Group_v1 result" where
  "Wait_enter_v1 g = and_then (checkInitialized g) (\<lambda>_. Returned (g\<lparr>doNotReuse_v1 := True\<rparr>))"

definition Wait_leave_v1 :: "Group_v1 \<Rightarrow> (err option \<times> Group_v1) result" where
  "Wait_leave_v1 g =
     (if wg_v1 g \<noteq> 0 then Blocked
      else and_then (setResult None g) (\<lambda>g1. Returned (err_v1 g1, g1)))"

definition Wait_v1 :: "Group_v1 \<Rightarrow> (err option \<times> Group_v1) result" where
  "Wait_v1 g = and_then (Wait_enter_v1 g) Wait_leave_v1"

subsection \<open>Executions of v1\<close>

datatype event_v1 =
    CallGo_v1
  | CallCancel_v1
  | CallWait_v1
  | WaitReturns_v1
  | TaskReturns_v1 nat "err option"
  | DeadlinePasses nat
  | TimeoutSeesDone nat

definition Sync_Done_v1 :: "Group_v1 \<Rightarrow> Group_v1 result" where
  "Sync_Done_v1 g =
     (if wg_v1 g = 0 then Panic ''sync: negative WaitGroup counter''
      else Returned (g\<lparr>wg_v1 := wg_v1 g - 1\<rparr>))"

definition exit_v1 :: "nat \<Rightarrow> Group_v1 \<Rightarrow> Group_v1" where
  "exit_v1 i g = g\<lparr>goroutines_v1 := (goroutines_v1 g)[i := Ended]\<rparr>"

definition goroutine_v1 :: "nat \<Rightarrow> Group_v1 \<Rightarrow> goroutine_v1" where
  "goroutine_v1 i g = (if i < length (goroutines_v1 g) then goroutines_v1 g ! i else Ended)"

text \<open>The closure of \<^verbatim>\<open>Go\<close> once the task has returned \<open>r\<close>: \<^verbatim>\<open>g.setResult(err)\<close>, then \<^verbatim>\<open>Done\<close>.\<close>

definition finish_v1 :: "nat \<Rightarrow> err option \<Rightarrow> Group_v1 \<Rightarrow> Group_v1 result" where
  "finish_v1 i r g = and_then (setResult r g) (\<lambda>g1. Sync_Done_v1 (exit_v1 i g1))"

definition task_returns_v1 :: "nat \<Rightarrow> err option \<Rightarrow> Group_v1 \<Rightarrow> Group_v1 result" where
  "task_returns_v1 i r g =
     (case goroutine_v1 i g of
        Running UserTask_v1 \<Rightarrow> finish_v1 i r g
      | Running (TimeoutTask d) \<Rightarrow> Blocked
      | Ended \<Rightarrow> Blocked)"

text \<open>
  The task of \<^verbatim>\<open>NewTimeout\<close>. Its context ends by the deadline, and the task returns
  \<^verbatim>\<open>DeadlineExceeded\<close>; or by the cancellation of the group's context, and the task
  returns the error of the group's context.
\<close>

definition deadline_passes_v1 :: "nat \<Rightarrow> Group_v1 \<Rightarrow> Group_v1 result" where
  "deadline_passes_v1 i g =
     (case goroutine_v1 i g of
        Running (TimeoutTask d) \<Rightarrow> finish_v1 i (Some DeadlineExceeded) g
      | Running UserTask_v1 \<Rightarrow> Blocked
      | Ended \<Rightarrow> Blocked)"

definition timeout_sees_done_v1 :: "nat \<Rightarrow> Group_v1 \<Rightarrow> Group_v1 result" where
  "timeout_sees_done_v1 i g =
     (case goroutine_v1 i g of
        Running (TimeoutTask d) \<Rightarrow>
          (case ctx_v1 g of
             Some (Some e) \<Rightarrow> finish_v1 i (Some e) g
           | Some None \<Rightarrow> Blocked
           | None \<Rightarrow> Blocked)
      | Running UserTask_v1 \<Rightarrow> Blocked
      | Ended \<Rightarrow> Blocked)"

definition call_wait_v1 :: "Group_v1 \<Rightarrow> Group_v1 result" where
  "call_wait_v1 g =
     and_then (Wait_enter_v1 g) (\<lambda>g1. Returned (g1\<lparr>waiters_v1 := waiters_v1 g1 + 1\<rparr>))"

definition wait_returns_v1 :: "Group_v1 \<Rightarrow> (err option \<times> Group_v1) result" where
  "wait_returns_v1 g =
     (if waiters_v1 g = 0 then Blocked
      else and_then (Wait_leave_v1 g)
             (\<lambda>(r, g1). Returned (r, g1\<lparr>waiters_v1 := waiters_v1 g1 - 1\<rparr>)))"

fun step_v1 :: "event_v1 \<Rightarrow> Group_v1 \<Rightarrow> (err option list \<times> Group_v1) result" where
  "step_v1 CallGo_v1 g = silent (Go_v1 UserTask_v1 g)"
| "step_v1 CallCancel_v1 g = silent (Cancel_v1 g)"
| "step_v1 CallWait_v1 g = silent (call_wait_v1 g)"
| "step_v1 WaitReturns_v1 g = visible (wait_returns_v1 g)"
| "step_v1 (TaskReturns_v1 i r) g = silent (task_returns_v1 i r g)"
| "step_v1 (DeadlinePasses i) g = silent (deadline_passes_v1 i g)"
| "step_v1 (TimeoutSeesDone i) g = silent (timeout_sees_done_v1 i g)"

fun exec_v1 :: "event_v1 list \<Rightarrow> err option list \<times> Group_v1 \<Rightarrow> (err option list \<times> Group_v1) result" where
  "exec_v1 [] s = Returned s"
| "exec_v1 (e # es) (out, g) =
     (case step_v1 e g of
        Panic m \<Rightarrow> Panic m
      | Blocked \<Rightarrow> Blocked
      | Returned (new, g1) \<Rightarrow> exec_v1 es (out @ new, g1))"

section \<open>Derived notions used in the statements\<close>

text \<open>
  \<^verbatim>\<open>context.Cause(gr.ctx)\<close> of a v2 group, \<^verbatim>\<open>nil\<close> also while the context is not yet created.
\<close>

definition Cause_v2 :: "Group_v2 \<Rightarrow> err option" where
  "Cause_v2 gr = (case ctx_v2 gr of None \<Rightarrow> None | Some c \<Rightarrow> c)"

text \<open>
  The states an execution can reach keep the counter equal to the number of goroutines
  started through \<^verbatim>\<open>waitgroup.Sync.Go\<close> that have not ended, and have a context as soon as
  a goroutine exists.
\<close>

fun is_tracked :: "goroutine_v2 \<Rightarrow> bool" where
  "is_tracked (Tracked t) = True"
| "is_tracked (Timer d cs) = False"
| "is_tracked Exited = False"

definition inv_v2 :: "Group_v2 \<Rightarrow> bool" where
  "inv_v2 gr = (g_v2 gr = length (filter is_tracked (goroutines_v2 gr)) \<and>
                (ctx_v2 gr = None \<longrightarrow> goroutines_v2 gr = []))"

text \<open>
  The states an execution of v1 can reach: the group was constructed, and the counter is the
  number of goroutines that have not ended.
\<close>

fun is_running :: "goroutine_v1 \<Rightarrow> bool" where
  "is_running (Running t) = True"
| "is_running Ended = False"

definition inv_v1 :: "Group_v1 \<Rightarrow> bool" where
  "inv_v1 g = (cancel_v1 g \<and> ctx_v1 g \<noteq> None \<and>
                wg_v1 g = length (filter is_running (goroutines_v1 g)))"

section \<open>Basic facts\<close>

lemmas api_v2_defs = GoCancelOnFinish_def GoCancelOnSuccess_def GoCancelOnError_def
  Go_v2_def Sync_Go_v2_def SetTimeout_def Cancel_v2_def Close_v2_def cancel_v2_def
  getContext_def Wait_enter_v2_def Wait_leave_v2_def Wait_v2_def call_wait_v2_def
  wait_returns_v2_def

lemmas run_v2_defs = task_returns_v2_def timer_fires_v2_def timer_sees_done_v2_def
  Sync_Done_v2_def exit_v2_def goroutine_v2_def

lemma and_then_Returned:
  "and_then x f = Returned y \<longleftrightarrow> (\<exists>v. x = Returned v \<and> f v = Returned y)"
  by (cases x) auto

lemma silent_Returned:
  "silent x = Returned (new, s) \<longleftrightarrow> new = [] \<and> x = Returned s"
  by (cases x) (auto simp: silent_def)

lemma visible_Returned:
  "visible x = Returned (new, s) \<longleftrightarrow> (\<exists>r. new = [r] \<and> x = Returned (r, s))"
  by (cases x) (auto simp: visible_def)

lemma filter_tracked_update:
  "i < length gs \<Longrightarrow> gs ! i = Tracked t \<Longrightarrow>
   Suc (length (filter is_tracked (gs[i := Exited]))) = length (filter is_tracked gs)"
proof (induction gs arbitrary: i)
  case Nil
  then show ?case by simp
next
  case (Cons a gs)
  then show ?case by (cases i) auto
qed

lemma filter_timer_update:
  "i < length gs \<Longrightarrow> gs ! i = Timer d cs \<Longrightarrow>
   length (filter is_tracked (gs[i := Exited])) = length (filter is_tracked gs)"
proof (induction gs arbitrary: i)
  case Nil
  then show ?case by simp
next
  case (Cons a gs)
  then show ?case by (cases i) auto
qed

lemma after_task_v2_fields:
  "after_task_v2 t r gr = Returned gr1 \<Longrightarrow>
   g_v2 gr1 = g_v2 gr \<and> goroutines_v2 gr1 = goroutines_v2 gr \<and> waiters_v2 gr1 = waiters_v2 gr
   \<and> (ctx_v2 gr = None \<longleftrightarrow> ctx_v2 gr1 = None)"
  by (cases t) (auto simp: cancel_v2_def split: option.splits)

lemma step_v2_inv:
  "inv_v2 gr \<Longrightarrow> step_v2 e gr = Returned (new, gr1) \<Longrightarrow> inv_v2 gr1"
proof (cases e)
  case (TaskReturns i r)
  assume a: "inv_v2 gr" "step_v2 e gr = Returned (new, gr1)"
  from a(2) TaskReturns obtain t gr2 where
    t: "i < length (goroutines_v2 gr)" "goroutines_v2 gr ! i = Tracked t"
    and at: "after_task_v2 t r gr = Returned gr2"
    and d: "Sync_Done_v2 (exit_v2 i gr2) = Returned gr1"
    by (auto simp: silent_Returned task_returns_v2_def goroutine_v2_def and_then_Returned
        split: goroutine_v2.splits if_splits)
  from after_task_v2_fields[OF at] a(1) t d show ?thesis
    using filter_tracked_update[OF t]
    by (auto simp: inv_v2_def Sync_Done_v2_def exit_v2_def split: if_splits)
next
  case (TimerFires i)
  assume a: "inv_v2 gr" "step_v2 e gr = Returned (new, gr1)"
  with TimerFires show ?thesis
    by (auto simp: silent_Returned timer_fires_v2_def goroutine_v2_def and_then_Returned
        cancel_v2_def exit_v2_def inv_v2_def filter_timer_update
        split: goroutine_v2.splits if_splits option.splits)
next
  case (TimerSeesDone i)
  assume a: "inv_v2 gr" "step_v2 e gr = Returned (new, gr1)"
  with TimerSeesDone show ?thesis
    by (auto simp: silent_Returned timer_sees_done_v2_def goroutine_v2_def
        exit_v2_def inv_v2_def filter_timer_update
        split: goroutine_v2.splits if_splits option.splits)
qed (auto simp: silent_Returned visible_Returned api_v2_defs inv_v2_def and_then_Returned Let_def
      split: option.splits if_splits)

lemma exec_v2_inv:
  "inv_v2 gr \<Longrightarrow> exec_v2 es (out, gr) = Returned (out1, gr1) \<Longrightarrow> inv_v2 gr1"
proof (induction es arbitrary: out gr)
  case Nil
  then show ?case by simp
next
  case (Cons e es)
  then show ?case
    by (auto split: result.splits dest: step_v2_inv)
qed

lemma after_task_v2_cause:
  "ctx_v2 gr = Some (Some c) \<Longrightarrow> after_task_v2 t r gr = Returned gr"
  by (cases t) (auto simp: cancel_v2_def cancelCause_def split: option.splits)

lemma step_v2_cause:
  "ctx_v2 gr = Some (Some c) \<Longrightarrow> step_v2 e gr = Returned (new, gr1) \<Longrightarrow>
   ctx_v2 gr1 = Some (Some c) \<and> set new \<subseteq> {Some c}"
proof (cases e)
  case (TaskReturns i r)
  assume "ctx_v2 gr = Some (Some c)" "step_v2 e gr = Returned (new, gr1)"
  with TaskReturns show ?thesis
    by (auto simp: silent_Returned task_returns_v2_def after_task_v2_cause Sync_Done_v2_def
        exit_v2_def split: goroutine_v2.splits if_splits)
qed (auto simp: silent_Returned visible_Returned api_v2_defs run_v2_defs and_then_Returned
      cancelCause_def Let_def split: option.splits if_splits goroutine_v2.splits)

lemma exec_v2_cause:
  "ctx_v2 gr = Some (Some c) \<Longrightarrow> exec_v2 es (out, gr) = Returned (out1, gr1) \<Longrightarrow>
   ctx_v2 gr1 = Some (Some c) \<and> (\<exists>new. out1 = out @ new \<and> set new \<subseteq> {Some c})"
proof (induction es arbitrary: out gr)
  case Nil
  then show ?case by simp
next
  case (Cons e es)
  from Cons.prems(2) obtain new gr2 where
    s: "step_v2 e gr = Returned (new, gr2)" and r: "exec_v2 es (out @ new, gr2) = Returned (out1, gr1)"
    by (auto split: result.splits)
  from step_v2_cause[OF Cons.prems(1) s] have c: "ctx_v2 gr2 = Some (Some c)" and n: "set new \<subseteq> {Some c}"
    by auto
  from Cons.IH[OF c r] obtain new1 where "ctx_v2 gr1 = Some (Some c)" "out1 = (out @ new) @ new1" "set new1 \<subseteq> {Some c}"
    by auto
  with n show ?case by (intro conjI exI[of _ "new @ new1"]) auto
qed

lemmas api_v1_defs = Go_v1_def Cancel_v1_def checkInitialized_def checkReuse_def setResult_def
  call_cancel_v1_def Wait_enter_v1_def Wait_leave_v1_def Wait_v1_def call_wait_v1_def
  wait_returns_v1_def

lemmas run_v1_defs = task_returns_v1_def deadline_passes_v1_def timeout_sees_done_v1_def
  finish_v1_def Sync_Done_v1_def exit_v1_def goroutine_v1_def

lemma step_v1_once:
  "errOnce_v1 g \<Longrightarrow> step_v1 e g = Returned (new, g1) \<Longrightarrow>
   errOnce_v1 g1 \<and> err_v1 g1 = err_v1 g \<and> set new \<subseteq> {err_v1 g}"
  by (cases e)
     (auto simp: silent_Returned visible_Returned api_v1_defs run_v1_defs and_then_Returned
       split: option.splits if_splits goroutine_v1.splits task_v1.splits)

lemma exec_v1_once:
  "errOnce_v1 g \<Longrightarrow> exec_v1 es (out, g) = Returned (out1, g1) \<Longrightarrow>
   errOnce_v1 g1 \<and> err_v1 g1 = err_v1 g \<and> (\<exists>new. out1 = out @ new \<and> set new \<subseteq> {err_v1 g})"
proof (induction es arbitrary: out g)
  case Nil
  then show ?case by simp
next
  case (Cons e es)
  from Cons.prems(2) obtain new g2 where
    s: "step_v1 e g = Returned (new, g2)" and r: "exec_v1 es (out @ new, g2) = Returned (out1, g1)"
    by (auto split: result.splits)
  from step_v1_once[OF Cons.prems(1) s]
  have c: "errOnce_v1 g2" and e: "err_v1 g2 = err_v1 g" and n: "set new \<subseteq> {err_v1 g}"
    by auto
  from Cons.IH[OF c r] e obtain new1 where
    "errOnce_v1 g1" "err_v1 g1 = err_v1 g" "out1 = (out @ new) @ new1" "set new1 \<subseteq> {err_v1 g}"
    by auto
  with n show ?case by (intro conjI exI[of _ "new @ new1"]) auto
qed

lemma Cancel_v2_first:
  "Cause_v2 gr = None \<Longrightarrow>
   Cancel_v2 cause cs gr =
     Returned (gr\<lparr>ctx_v2 := Some (Some (NewError (case cause of None \<Rightarrow> Canceled | Some e \<Rightarrow> e) cs))\<rparr>)"
  by (auto simp: Cause_v2_def api_v2_defs cancelCause_def Background_def WithCancelCause_def
      split: option.splits)

lemma Cancel_v2_later:
  "ctx_v2 gr = Some (Some c) \<Longrightarrow> Cancel_v2 cause cs gr = Returned gr"
  by (auto simp: api_v2_defs cancelCause_def split: option.splits)

lemma unwrap_Is_refl: "unwrap_Is e e"
  by (cases e) auto

lemma unwrap_Is_Traced: "unwrap_Is e t \<Longrightarrow> unwrap_Is (Traced e cs) t"
  by simp

lemma exec_v2_first:
  assumes s: "step_v2 e gr = Returned ([], gr2)" and c: "ctx_v2 gr2 = Some (Some c)"
    and x: "exec_v2 (e # es) ([], gr) = Returned (out, gr1)"
  shows "ctx_v2 gr1 = Some (Some c) \<and> set out \<subseteq> {Some c}"
proof -
  from s x have "exec_v2 es ([], gr2) = Returned (out, gr1)" by simp
  from exec_v2_cause[OF c this] show ?thesis by auto
qed

lemma exec_v1_first:
  assumes s: "step_v1 e g = Returned ([], g2)" and c: "errOnce_v1 g2"
    and x: "exec_v1 (e # es) ([], g) = Returned (out, g1)"
  shows "errOnce_v1 g1 \<and> err_v1 g1 = err_v1 g2 \<and> set out \<subseteq> {err_v1 g2}"
proof -
  from s x have "exec_v1 es ([], g2) = Returned (out, g1)" by simp
  from exec_v1_once[OF c this] show ?thesis by auto
qed

lemma CallCancel_first:
  assumes n: "Cause_v2 gr = None"
    and x: "exec_v2 (CallCancel cause cs # es) ([], gr) = Returned (out, gr1)"
  shows "ctx_v2 gr1 = Some (Some (NewError (case cause of None \<Rightarrow> Canceled | Some e \<Rightarrow> e) cs))
       \<and> set out \<subseteq> {Some (NewError (case cause of None \<Rightarrow> Canceled | Some e \<Rightarrow> e) cs)}"
proof (rule exec_v2_first[OF _ _ x])
  show "step_v2 (CallCancel cause cs) gr =
    Returned ([], gr\<lparr>ctx_v2 := Some (Some (NewError (case cause of None \<Rightarrow> Canceled | Some e \<Rightarrow> e) cs))\<rparr>)"
    by (simp add: Cancel_v2_first[OF n] silent_def)
qed simp

lemma CallCancel_v1_first:
  assumes i: "cancel_v1 g" and n: "\<not> errOnce_v1 g"
    and x: "exec_v1 (CallCancel_v1 # es) ([], g) = Returned (out, g1)"
  shows "errOnce_v1 g1 \<and> err_v1 g1 = Some Canceled \<and> set out \<subseteq> {Some Canceled}"
proof -
  have s: "step_v1 CallCancel_v1 g = Returned ([], g\<lparr>errOnce_v1 := True, err_v1 := Some Canceled,
      ctx_v1 := map_option (cancelCause None) (ctx_v1 g)\<rparr>)"
    using i n by (simp add: api_v1_defs silent_def)
  from exec_v1_first[OF s _ x] show ?thesis by simp
qed


lemma filter_running_update:
  "i < length gs \<Longrightarrow> gs ! i = Running t \<Longrightarrow>
   Suc (length (filter is_running (gs[i := Ended]))) = length (filter is_running gs)"
proof (induction gs arbitrary: i)
  case Nil
  then show ?case by simp
next
  case (Cons a gs)
  then show ?case by (cases i) auto
qed

lemma setResult_fields:
  "setResult r g = Returned g' \<Longrightarrow>
   cancel_v1 g' = cancel_v1 g \<and> wg_v1 g' = wg_v1 g \<and> goroutines_v1 g' = goroutines_v1 g
   \<and> doNotReuse_v1 g' = doNotReuse_v1 g \<and> waiters_v1 g' = waiters_v1 g
   \<and> (ctx_v1 g' = None \<longleftrightarrow> ctx_v1 g = None)"
  by (auto simp: setResult_def call_cancel_v1_def split: if_splits)

lemma finish_v1_inv:
  assumes "inv_v1 g" "i < length (goroutines_v1 g)" "goroutines_v1 g ! i = Running t"
    and "finish_v1 i r g = Returned g'"
  shows "inv_v1 g'"
proof -
  from assms(4) obtain g2 where s: "setResult r g = Returned g2"
    and d: "Sync_Done_v1 (exit_v1 i g2) = Returned g'"
    by (auto simp: finish_v1_def and_then_Returned)
  from setResult_fields[OF s] assms(1-3) d filter_running_update[OF assms(2,3)]
  show ?thesis
    by (auto simp: inv_v1_def Sync_Done_v1_def exit_v1_def split: if_splits)
qed

lemma step_v1_inv:
  "inv_v1 g \<Longrightarrow> step_v1 e g = Returned (new, g') \<Longrightarrow> inv_v1 g'"
proof (cases e)
  case (TaskReturns_v1 i r)
  assume "inv_v1 g" "step_v1 e g = Returned (new, g')"
  with TaskReturns_v1 show ?thesis
    by (auto simp: silent_Returned task_returns_v1_def goroutine_v1_def
        split: goroutine_v1.splits task_v1.splits if_splits intro: finish_v1_inv)
next
  case (DeadlinePasses i)
  assume "inv_v1 g" "step_v1 e g = Returned (new, g')"
  with DeadlinePasses show ?thesis
    by (auto simp: silent_Returned deadline_passes_v1_def goroutine_v1_def
        split: goroutine_v1.splits task_v1.splits if_splits intro: finish_v1_inv)
next
  case (TimeoutSeesDone i)
  assume "inv_v1 g" "step_v1 e g = Returned (new, g')"
  with TimeoutSeesDone show ?thesis
    by (auto simp: silent_Returned timeout_sees_done_v1_def goroutine_v1_def
        split: goroutine_v1.splits task_v1.splits if_splits option.splits intro: finish_v1_inv)
qed (auto simp: silent_Returned visible_Returned api_v1_defs inv_v1_def and_then_Returned
      split: if_splits)

lemma exec_v1_inv:
  "inv_v1 g \<Longrightarrow> exec_v1 es (out, g) = Returned (out', g') \<Longrightarrow> inv_v1 g'"
proof (induction es arbitrary: out g)
  case Nil
  then show ?case by simp
next
  case (Cons e es)
  then show ?case
    by (auto split: result.splits dest: step_v1_inv)
qed

lemma step_v1_doNotReuse:
  "doNotReuse_v1 g \<Longrightarrow> step_v1 e g = Returned (new, g') \<Longrightarrow> doNotReuse_v1 g'"
  by (cases e)
     (auto simp: silent_Returned visible_Returned api_v1_defs run_v1_defs and_then_Returned
       split: option.splits if_splits goroutine_v1.splits task_v1.splits)

lemma exec_v1_doNotReuse:
  "doNotReuse_v1 g \<Longrightarrow> exec_v1 es (out, g) = Returned (out', g') \<Longrightarrow> doNotReuse_v1 g'"
proof (induction es arbitrary: out g)
  case Nil
  then show ?case by simp
next
  case (Cons e es)
  then show ?case
    by (auto split: result.splits dest: step_v1_doNotReuse)
qed

lemma step_v1_cancel:
  "step_v1 e g = Returned (new, g') \<Longrightarrow> cancel_v1 g' = cancel_v1 g"
  by (cases e)
     (auto simp: silent_Returned visible_Returned api_v1_defs run_v1_defs and_then_Returned
       split: option.splits if_splits goroutine_v1.splits task_v1.splits)

lemma exec_v1_cancel:
  "exec_v1 es (out, g) = Returned (out', g') \<Longrightarrow> cancel_v1 g' = cancel_v1 g"
proof (induction es arbitrary: out g)
  case Nil
  then show ?case by simp
next
  case (Cons e es)
  then show ?case
    by (auto split: result.splits dest: step_v1_cancel)
qed

lemma inv_v1_start:
  "inv_v1 (New_v1 ctx)" "NewTimeout ctx d = Returned g \<Longrightarrow> inv_v1 g"
  by (auto simp: inv_v1_def New_v1_def NewTimeout_def api_v1_defs)

lemma inv_v2_start: "inv_v2 zero_v2" "inv_v2 (New_v2 parent)"
  by (simp_all add: inv_v2_def zero_v2_def New_v2_def)

lemma tracked_v2_counted:
  assumes "inv_v2 gr" "goroutine_v2 i gr = Tracked t"
  shows "0 < g_v2 gr" "ctx_v2 gr \<noteq> None" "i < length (goroutines_v2 gr)"
proof -
  from assms(2) have i: "i < length (goroutines_v2 gr)" and t: "goroutines_v2 gr ! i = Tracked t"
    by (auto simp: goroutine_v2_def split: if_splits)
  then have "Tracked t \<in> set (filter is_tracked (goroutines_v2 gr))"
    by (auto simp: in_set_conv_nth)
  then have "0 < length (filter is_tracked (goroutines_v2 gr))"
    by (rule length_pos_if_in_set)
  with assms(1) show "0 < g_v2 gr" by (simp add: inv_v2_def)
  from i assms(1) show "ctx_v2 gr \<noteq> None" by (auto simp: inv_v2_def)
  from i show "i < length (goroutines_v2 gr)" .
qed

lemma running_v1_counted:
  assumes "inv_v1 g" "goroutine_v1 i g = Running t"
  shows "0 < wg_v1 g" "cancel_v1 g" "i < length (goroutines_v1 g)" "ctx_v1 g \<noteq> None"
proof -
  from assms(2) have i: "i < length (goroutines_v1 g)" and t: "goroutines_v1 g ! i = Running t"
    by (auto simp: goroutine_v1_def split: if_splits)
  then have "Running t \<in> set (filter is_running (goroutines_v1 g))"
    by (auto simp: in_set_conv_nth)
  then have "0 < length (filter is_running (goroutines_v1 g))"
    by (rule length_pos_if_in_set)
  with assms(1) show "0 < wg_v1 g" by (simp add: inv_v1_def)
  from assms(1) show "cancel_v1 g" by (simp add: inv_v1_def)
  from assms(1) show "ctx_v1 g \<noteq> None" by (simp add: inv_v1_def)
  from i show "i < length (goroutines_v1 g)" .
qed

lemma task_returns_v2_reached:
  assumes "inv_v2 gr" "goroutine_v2 i gr = Tracked t"
  shows "task_returns_v2 i r gr =
     and_then (after_task_v2 t r gr)
       (\<lambda>gr1. Returned (gr1\<lparr>goroutines_v2 := (goroutines_v2 gr1)[i := Exited], g_v2 := g_v2 gr1 - 1\<rparr>))"
proof -
  from tracked_v2_counted[OF assms] obtain c where c: "ctx_v2 gr = Some c" and p: "0 < g_v2 gr"
    by auto
  show ?thesis
    using assms(2) c p
    by (cases t) (auto simp: task_returns_v2_def Sync_Done_v2_def exit_v2_def cancel_v2_def
        split: option.splits)
qed

lemma reached_v2:
  "gr0 = zero_v2 \<or> gr0 = New_v2 parent \<Longrightarrow> exec_v2 es (out0, gr0) = Returned (out, gr) \<Longrightarrow> inv_v2 gr"
  using exec_v2_inv inv_v2_start by blast

lemma reached_v1:
  "g0 = New_v1 ctx \<or> NewTimeout ctx d = Returned g0 \<Longrightarrow>
   exec_v1 es (out0, g0) = Returned (out, g) \<Longrightarrow> inv_v1 g"
  using exec_v1_inv inv_v1_start by blast

lemma Cause_v2_ctx:
  "Cause_v2 gr = None \<Longrightarrow> ctx_v2 gr \<noteq> None \<Longrightarrow> ctx_v2 gr = Some None"
  by (auto simp: Cause_v2_def split: option.splits)

lemma finish_v1_reached:
  assumes "inv_v1 g" "goroutine_v1 i g = Running t"
  shows "finish_v1 i r g =
     and_then (setResult r g)
       (\<lambda>g1. Returned (g1\<lparr>goroutines_v1 := (goroutines_v1 g1)[i := Ended], wg_v1 := wg_v1 g1 - 1\<rparr>))"
  using running_v1_counted[OF assms]
  by (auto simp: finish_v1_def setResult_def call_cancel_v1_def Sync_Done_v1_def exit_v1_def)


lemma timer_v2_ctx:
  assumes "inv_v2 gr" "goroutine_v2 i gr = Timer d cs"
  shows "ctx_v2 gr \<noteq> None"
proof -
  from assms(2) have "i < length (goroutines_v2 gr)"
    by (auto simp: goroutine_v2_def split: if_splits)
  with assms(1) show ?thesis by (auto simp: inv_v2_def)
qed

section \<open>C1: the first cancellation cause is the only one recorded\<close>

text \<open>
  Claim C1. Every cancellation of v2 goes through \<open>cancel_v2\<close> (the field \<^verbatim>\<open>gr.cancel\<close>: the
  explicit \<^verbatim>\<open>Cancel\<close>, the policy closures and the timer all call it) and every cancellation
  of v1 through \<open>setResult\<close>. On a group that is not cancelled the call records the cause it
  is given; on a cancelled group it changes nothing, and neither does \<^verbatim>\<open>Cancel\<close> with any
  cause, \<^verbatim>\<open>nil\<close> included. Along every execution a recorded cause stays what it is, and it is
  what every later \<^verbatim>\<open>Wait\<close> returns. In particular, after \<^verbatim>\<open>Cancel(ca)\<close> followed by
  \<^verbatim>\<open>Cancel(cb)\<close> on a v2 group that was not cancelled, whatever follows, the recorded cause
  and every value returned by \<^verbatim>\<open>Wait\<close> is the cause of the first call (\<open>ca\<close>, or
  \<^verbatim>\<open>context.Canceled\<close> for \<^verbatim>\<open>nil\<close>, with the call site of the first call): never the second
  cause and never a combination.
\<close>

theorem first_cause_wins:
  "(ctx_v2 gr = Some None \<longrightarrow> cancel_v2 e gr = Returned (gr\<lparr>ctx_v2 := Some (Some e)\<rparr>))
   \<and> (ctx_v2 gr = Some (Some c) \<longrightarrow> cancel_v2 e gr = Returned gr \<and> Cancel_v2 cause cs gr = Returned gr)
   \<and> (ctx_v2 gr = Some (Some c) \<longrightarrow> exec_v2 es (out, gr) = Returned (out', gr') \<longrightarrow>
        ctx_v2 gr' = Some (Some c) \<and> (\<exists>new. out' = out @ new \<and> set new \<subseteq> {Some c}))
   \<and> (Cause_v2 gr = None \<longrightarrow>
        exec_v2 (CallCancel ca csa # CallCancel cb csb # es) ([], gr) = Returned (out', gr') \<longrightarrow>
        Cause_v2 gr' = Some (NewError (case ca of None \<Rightarrow> Canceled | Some x \<Rightarrow> x) csa)
        \<and> set out' \<subseteq> {Some (NewError (case ca of None \<Rightarrow> Canceled | Some x \<Rightarrow> x) csa)})
   \<and> (cancel_v1 g \<longrightarrow> \<not> errOnce_v1 g \<longrightarrow>
        setResult r g = Returned (g\<lparr>errOnce_v1 := True, err_v1 := r,
                                    ctx_v1 := map_option (cancelCause None) (ctx_v1 g)\<rparr>))
   \<and> (errOnce_v1 g \<longrightarrow> setResult r g = Returned g)
   \<and> (errOnce_v1 g \<longrightarrow> exec_v1 es' (out, g) = Returned (out'', g') \<longrightarrow>
        errOnce_v1 g' \<and> err_v1 g' = err_v1 g \<and> (\<exists>new. out'' = out @ new \<and> set new \<subseteq> {err_v1 g}))"
proof (intro conjI impI)
  assume "ctx_v2 gr = Some None"
  then show "cancel_v2 e gr = Returned (gr\<lparr>ctx_v2 := Some (Some e)\<rparr>)"
    by (simp add: cancel_v2_def cancelCause_def)
next
  assume "ctx_v2 gr = Some (Some c)"
  then show "cancel_v2 e gr = Returned gr"
    by (simp add: cancel_v2_def cancelCause_def)
next
  assume "ctx_v2 gr = Some (Some c)"
  then show "Cancel_v2 cause cs gr = Returned gr"
    by (rule Cancel_v2_later)
next
  assume "ctx_v2 gr = Some (Some c)" "exec_v2 es (out, gr) = Returned (out', gr')"
  from exec_v2_cause[OF this]
  show "ctx_v2 gr' = Some (Some c)" and "\<exists>new. out' = out @ new \<and> set new \<subseteq> {Some c}"
    by auto
next
  assume a: "Cause_v2 gr = None"
    "exec_v2 (CallCancel ca csa # CallCancel cb csb # es) ([], gr) = Returned (out', gr')"
  from CallCancel_first[OF a]
  show "Cause_v2 gr' = Some (NewError (case ca of None \<Rightarrow> Canceled | Some x \<Rightarrow> x) csa)"
    and "set out' \<subseteq> {Some (NewError (case ca of None \<Rightarrow> Canceled | Some x \<Rightarrow> x) csa)}"
    by (auto simp: Cause_v2_def)
next
  assume "cancel_v1 g" "\<not> errOnce_v1 g"
  then show "setResult r g = Returned (g\<lparr>errOnce_v1 := True, err_v1 := r,
                                    ctx_v1 := map_option (cancelCause None) (ctx_v1 g)\<rparr>)"
    by (simp add: setResult_def call_cancel_v1_def)
next
  assume "errOnce_v1 g"
  then show "setResult r g = Returned g"
    by (simp add: setResult_def)
next
  assume "errOnce_v1 g" "exec_v1 es' (out, g) = Returned (out'', g')"
  from exec_v1_once[OF this]
  show "errOnce_v1 g'" and "err_v1 g' = err_v1 g"
    and "\<exists>new. out'' = out @ new \<and> set new \<subseteq> {err_v1 g}"
    by auto
qed

text \<open>The theorem at concrete groups: a fresh one, one whose parent was cancelled, and a zero value.\<close>

theorem first_cause_wins_witness:
  "ctx_v2 (New_v2 Background) = Some None
   \<and> cancel_v2 (Failure ''a'') (New_v2 Background)
       = Returned ((New_v2 Background)\<lparr>ctx_v2 := Some (Some (Failure ''a''))\<rparr>)
   \<and> ctx_v2 (New_v2 (Some Canceled)) = Some (Some Canceled)
   \<and> Cancel_v2 (Some (Failure ''b'')) ''s2'' (New_v2 (Some Canceled)) = Returned (New_v2 (Some Canceled))
   \<and> exec_v2 [CallCancel (Some (Failure ''b'')) ''s2'', CallWait, WaitReturns] ([], New_v2 (Some Canceled))
       = Returned ([Some Canceled], New_v2 (Some Canceled))
   \<and> Cause_v2 zero_v2 = None
   \<and> exec_v2 [CallCancel (Some (Failure ''a'')) ''s1'', CallCancel (Some (Failure ''b'')) ''s2'',
               CallWait, WaitReturns] ([], zero_v2)
       = Returned ([Some (Traced (Failure ''a'') ''s1'')], New_v2 (Some (Traced (Failure ''a'') ''s1'')))
   \<and> Cause_v2 (New_v2 (Some (Traced (Failure ''a'') ''s1''))) = Some (NewError (Failure ''a'') ''s1'')
   \<and> cancel_v1 (New_v1 Background) \<and> \<not> errOnce_v1 (New_v1 Background)
   \<and> setResult (Some (Failure ''a'')) (New_v1 Background)
       = Returned ((New_v1 Background)\<lparr>errOnce_v1 := True, err_v1 := Some (Failure ''a''),
                                         ctx_v1 := Some (Some Canceled)\<rparr>)
   \<and> exec_v1 [CallCancel_v1, CallWait_v1, WaitReturns_v1]
         ([], (New_v1 Background)\<lparr>errOnce_v1 := True, err_v1 := Some (Failure ''a'')\<rparr>)
       = Returned ([Some (Failure ''a'')],
           (New_v1 Background)\<lparr>errOnce_v1 := True, err_v1 := Some (Failure ''a''), doNotReuse_v1 := True\<rparr>)"
proof -
  let ?p = "New_v2 (Some Canceled)"
  let ?a = "Traced (Failure ''a'') ''s1''"
  let ?g = "(New_v1 Background)\<lparr>errOnce_v1 := True, err_v1 := Some (Failure ''a'')\<rparr>"
  note T = first_cause_wins
  show ?thesis
    using T[where gr = "New_v2 Background" and e = "Failure ''a''" and g = "New_v1 Background"
        and r = "Some (Failure ''a'')" and c = Canceled and cause = None and cs = "''s''"
        and es = "[]" and out = "[]" and out' = "[]" and gr' = "New_v2 Background"
        and ca = None and cb = None and csa = "''s''" and csb = "''s''" and es' = "[]"
        and out'' = "[]" and g' = "New_v1 Background"]
      T[where gr = ?p and e = "Failure ''a''" and g = ?g
        and r = "Some (Failure ''a'')" and c = Canceled and cause = "Some (Failure ''b'')"
        and cs = "''s2''" and out = "[]" and out' = "[Some Canceled]" and gr' = ?p
        and es = "[CallCancel (Some (Failure ''b'')) ''s2'', CallWait, WaitReturns]"
        and ca = None and cb = None and csa = "''s''" and csb = "''s''"
        and es' = "[CallCancel_v1, CallWait_v1, WaitReturns_v1]"
        and out'' = "[Some (Failure ''a'')]" and g' = "?g\<lparr>doNotReuse_v1 := True\<rparr>"]
      T[where gr = zero_v2 and e = "Failure ''a''" and g = ?g
        and r = "Some (Failure ''a'')" and c = Canceled and cause = None
        and cs = "''s2''" and out = "[]" and out' = "[Some ?a]" and gr' = "New_v2 (Some ?a)"
        and es = "[CallWait, WaitReturns]"
        and ca = "Some (Failure ''a'')" and cb = "Some (Failure ''b'')" and csa = "''s1''"
        and csb = "''s2''" and es' = "[]" and out'' = "[]" and g' = ?g]
    by (simp add: api_v2_defs api_v1_defs New_v2_def zero_v2_def New_v1_def WithCancelCause_def
        WithCancel_def Background_def silent_def visible_def cancelCause_def NewError_def
        Cause_v2_def)
qed

section \<open>C2: what Wait does once the tasks have finished\<close>

text \<open>
  Claim C2, as the code has it. In v1, \<^verbatim>\<open>Wait\<close> marks the group non-reusable when it is
  entered, before it blocks; once the counter is zero it calls \<^verbatim>\<open>setResult(nil)\<close>, which does
  nothing if a result is recorded already and otherwise records \<^verbatim>\<open>nil\<close> and cancels the
  context; it returns the recorded error, \<^verbatim>\<open>nil\<close> if none was recorded before. In v2, \<^verbatim>\<open>Wait\<close>
  has no such steps: with the counter at zero it returns the cause of the context (\<^verbatim>\<open>nil\<close> if
  it was never cancelled) and changes nothing but the lazy creation of the context, which it
  leaves as cancelled or not as it found it.
\<close>

theorem Wait_final_steps:
  "(cancel_v1 g \<longrightarrow> Wait_enter_v1 g = Returned (g\<lparr>doNotReuse_v1 := True\<rparr>))
   \<and> (cancel_v1 g \<longrightarrow> wg_v1 g = 0 \<longrightarrow> errOnce_v1 g \<longrightarrow>
        Wait_v1 g = Returned (err_v1 g, g\<lparr>doNotReuse_v1 := True\<rparr>))
   \<and> (cancel_v1 g \<longrightarrow> wg_v1 g = 0 \<longrightarrow> \<not> errOnce_v1 g \<longrightarrow>
        Wait_v1 g = Returned (None, g\<lparr>doNotReuse_v1 := True, errOnce_v1 := True, err_v1 := None,
                                       ctx_v1 := map_option (cancelCause None) (ctx_v1 g)\<rparr>))
   \<and> (g_v2 gr = 0 \<longrightarrow> Wait_v2 gr = Returned (Cause_v2 gr, getContext gr))
   \<and> Cause_v2 (getContext gr) = Cause_v2 gr
   \<and> g_v2 (getContext gr) = g_v2 gr
   \<and> goroutines_v2 (getContext gr) = goroutines_v2 gr"
proof (intro conjI impI)
  assume "cancel_v1 g"
  then show "Wait_enter_v1 g = Returned (g\<lparr>doNotReuse_v1 := True\<rparr>)"
    by (simp add: api_v1_defs)
next
  assume "cancel_v1 g" "wg_v1 g = 0" "errOnce_v1 g"
  then show "Wait_v1 g = Returned (err_v1 g, g\<lparr>doNotReuse_v1 := True\<rparr>)"
    by (simp add: api_v1_defs)
next
  assume "cancel_v1 g" "wg_v1 g = 0" "\<not> errOnce_v1 g"
  then show "Wait_v1 g = Returned (None, g\<lparr>doNotReuse_v1 := True, errOnce_v1 := True, err_v1 := None,
                                       ctx_v1 := map_option (cancelCause None) (ctx_v1 g)\<rparr>)"
    by (simp add: api_v1_defs)
next
  assume "g_v2 gr = 0"
  then show "Wait_v2 gr = Returned (Cause_v2 gr, getContext gr)"
    by (auto simp: api_v2_defs Cause_v2_def WithCancelCause_def Background_def split: option.splits)
next
  show "Cause_v2 (getContext gr) = Cause_v2 gr"
    by (simp add: getContext_def Cause_v2_def WithCancelCause_def Background_def)
next
  show "g_v2 (getContext gr) = g_v2 gr"
    by (simp add: getContext_def)
next
  show "goroutines_v2 (getContext gr) = goroutines_v2 gr"
    by (simp add: getContext_def)
qed

text \<open>The theorem at a fresh v1 group, at one with a recorded error, and at a v2 zero value.\<close>

theorem Wait_final_steps_witness:
  "cancel_v1 (New_v1 Background) \<and> wg_v1 (New_v1 Background) = 0 \<and> \<not> errOnce_v1 (New_v1 Background)
   \<and> Wait_v1 (New_v1 Background)
       = Returned (None, (New_v1 Background)\<lparr>doNotReuse_v1 := True, errOnce_v1 := True,
                            err_v1 := None, ctx_v1 := Some (Some Canceled)\<rparr>)
   \<and> errOnce_v1 ((New_v1 Background)\<lparr>errOnce_v1 := True, err_v1 := Some (Failure ''task failed'')\<rparr>)
   \<and> Wait_v1 ((New_v1 Background)\<lparr>errOnce_v1 := True, err_v1 := Some (Failure ''task failed'')\<rparr>)
       = Returned (Some (Failure ''task failed''),
           (New_v1 Background)\<lparr>errOnce_v1 := True, err_v1 := Some (Failure ''task failed''),
              doNotReuse_v1 := True\<rparr>)
   \<and> g_v2 zero_v2 = 0
   \<and> Wait_v2 zero_v2 = Returned (None, New_v2 Background)"
  using Wait_final_steps[where g = "New_v1 Background" and gr = zero_v2]
    Wait_final_steps[where gr = zero_v2
      and g = "(New_v1 Background)\<lparr>errOnce_v1 := True, err_v1 := Some (Failure ''task failed'')\<rparr>"]
  by (simp add: api_v2_defs zero_v2_def New_v2_def WithCancelCause_def Background_def
        cancelCause_def Cause_v2_def api_v1_defs New_v1_def WithCancel_def)

text \<open>
  The claim as written fails on v2: after \<^verbatim>\<open>Wait\<close> has returned on a fresh group, the group is
  exactly as it was constructed and its context is not cancelled. And in v1 the mark does not
  wait for the tasks: a \<^verbatim>\<open>Wait\<close> that is blocked on a running task has set it already.
\<close>

theorem Wait_final_steps_counterexample:
  "exec_v2 [CallWait, WaitReturns] ([], New_v2 Background) = Returned ([None], New_v2 Background)
   \<and> ctx_v2 (New_v2 Background) = Some None
   \<and> exec_v1 [CallGo_v1, CallWait_v1] ([], New_v1 Background)
       = Returned ([], (New_v1 Background)\<lparr>wg_v1 := 1, goroutines_v1 := [Running UserTask_v1],
                          doNotReuse_v1 := True, waiters_v1 := 1\<rparr>)"
  by (simp add: api_v2_defs New_v2_def WithCancelCause_def Background_def silent_def visible_def
      api_v1_defs New_v1_def)

section \<open>C3: registering a task after Wait\<close>

text \<open>
  Claim C3, as the code has it. In v1, once \<^verbatim>\<open>Wait\<close> has been called on a group, whatever
  happens afterwards, every call of \<^verbatim>\<open>Go\<close> panics with the reuse message (and before any
  \<^verbatim>\<open>Wait\<close>, on a constructed group, \<^verbatim>\<open>Go\<close> registers the task). In v2 there is no such check:
  \<^verbatim>\<open>Go\<close> and its three policy variants are the same registration applied to their closure,
  and in every state it returns, with the counter incremented and the goroutine started.
\<close>

theorem Go_after_Wait:
  "(exec_v1 (CallWait_v1 # es) (out, g) = Returned (out', g') \<longrightarrow>
      Go_v1 t g' = Panic ''A Group must must not be reused.'')
   \<and> (\<not> doNotReuse_v1 g \<longrightarrow> cancel_v1 g \<longrightarrow>
      Go_v1 t g = Returned (g\<lparr>wg_v1 := wg_v1 g + 1, goroutines_v1 := goroutines_v1 g @ [Running t]\<rparr>))
   \<and> Go_v2 t2 gr = Returned ((getContext gr)\<lparr>g_v2 := g_v2 gr + 1,
                                      goroutines_v2 := goroutines_v2 gr @ [Tracked t2]\<rparr>)
   \<and> GoCancelOnFinish cs gr = Go_v2 (OnFinish cs) gr
   \<and> GoCancelOnSuccess cs gr = Go_v2 (OnSuccess cs) gr
   \<and> GoCancelOnError cs gr = Go_v2 (OnError cs) gr"
proof (intro conjI impI)
  assume a: "exec_v1 (CallWait_v1 # es) (out, g) = Returned (out', g')"
  then obtain g2 where s: "step_v1 CallWait_v1 g = Returned ([], g2)"
    and x: "exec_v1 es (out, g2) = Returned (out', g')"
    by (auto simp: silent_Returned split: result.splits)
  from s have "doNotReuse_v1 g2" and i: "cancel_v1 g2"
    by (auto simp: silent_Returned api_v1_defs and_then_Returned split: if_splits)
  from exec_v1_doNotReuse[OF this(1) x] exec_v1_cancel[OF x] i
  show "Go_v1 t g' = Panic ''A Group must must not be reused.''"
    by (simp add: Go_v1_def checkInitialized_def checkReuse_def)
next
  assume "\<not> doNotReuse_v1 g" "cancel_v1 g"
  then show "Go_v1 t g = Returned (g\<lparr>wg_v1 := wg_v1 g + 1, goroutines_v1 := goroutines_v1 g @ [Running t]\<rparr>)"
    by (simp add: Go_v1_def checkInitialized_def checkReuse_def)
next
  show "Go_v2 t2 gr = Returned ((getContext gr)\<lparr>g_v2 := g_v2 gr + 1,
                                      goroutines_v2 := goroutines_v2 gr @ [Tracked t2]\<rparr>)"
    by (simp add: Go_v2_def Sync_Go_v2_def getContext_def)
qed (simp_all add: GoCancelOnFinish_def GoCancelOnSuccess_def GoCancelOnError_def)

text \<open>The theorem at a fresh v1 group, before and after a \<^verbatim>\<open>Wait\<close>.\<close>

theorem Go_after_Wait_witness:
  "exec_v1 [CallWait_v1, WaitReturns_v1] ([], New_v1 Background)
     = Returned ([None], (New_v1 Background)\<lparr>doNotReuse_v1 := True, errOnce_v1 := True,
                            ctx_v1 := Some (Some Canceled)\<rparr>)
   \<and> Go_v1 UserTask_v1 ((New_v1 Background)\<lparr>doNotReuse_v1 := True, errOnce_v1 := True,
                            ctx_v1 := Some (Some Canceled)\<rparr>)
       = Panic ''A Group must must not be reused.''
   \<and> \<not> doNotReuse_v1 (New_v1 Background) \<and> cancel_v1 (New_v1 Background)
   \<and> Go_v1 UserTask_v1 (New_v1 Background)
       = Returned ((New_v1 Background)\<lparr>wg_v1 := 1, goroutines_v1 := [Running UserTask_v1]\<rparr>)"
  using Go_after_Wait[where es = "[WaitReturns_v1]" and out = "[]" and out' = "[None]"
      and g = "New_v1 Background" and t = UserTask_v1
      and g' = "(New_v1 Background)\<lparr>doNotReuse_v1 := True, errOnce_v1 := True,
                            ctx_v1 := Some (Some Canceled)\<rparr>"]
  by (simp add: api_v1_defs New_v1_def WithCancel_def Background_def cancelCause_def
      silent_def visible_def)

text \<open>
  The claim as written fails on v2: after \<^verbatim>\<open>Wait\<close> has returned, \<^verbatim>\<open>Go\<close> and each policy variant
  register their task without a fault.
\<close>

theorem Go_after_Wait_counterexample:
  "exec_v2 [CallWait, WaitReturns, CallGo, CallGoCancelOnFinish ''s'', CallGoCancelOnSuccess ''s'',
            CallGoCancelOnError ''s''] ([], New_v2 Background)
     = Returned ([None], \<lparr>g_v2 = 4, ctx_v2 = Some None,
         goroutines_v2 = [Tracked UserTask, Tracked (OnFinish ''s''), Tracked (OnSuccess ''s''),
                          Tracked (OnError ''s'')],
         waiters_v2 = 0\<rparr>)"
  by (simp add: api_v2_defs New_v2_def WithCancelCause_def Background_def silent_def visible_def)

section \<open>C4: the zero value\<close>




section \<open>C5: timeouts\<close>

text \<open>
  Claim C5, as the code has it. In v1, \<^verbatim>\<open>NewTimeout\<close> registers its task through \<^verbatim>\<open>Go\<close>, so
  the counter counts it and \<^verbatim>\<open>Wait\<close> stays blocked while it runs; when the deadline passes
  first on a group without a result, \<^verbatim>\<open>DeadlineExceeded\<close> is recorded and the context is
  cancelled; the other branch is not ready while the context is not cancelled, and when it is
  taken the task returns the error of the context, which is recorded only if nothing was
  recorded before. In v2, \<^verbatim>\<open>SetTimeout\<close> starts its goroutine outside the counter, which stays
  as it was; on a group that is not cancelled the timer branch records \<^verbatim>\<open>DeadlineExceeded\<close>
  with the call site of \<^verbatim>\<open>SetTimeout\<close> and the other branch is not ready; on a cancelled
  group either branch ends the goroutine and leaves the group as it is.
\<close>

theorem timeout_goroutine:
  "NewTimeout ctx d = Go_v1 (TimeoutTask d) (New_v1 ctx)
   \<and> NewTimeout ctx d = Returned ((New_v1 ctx)\<lparr>wg_v1 := 1, goroutines_v1 := [Running (TimeoutTask d)]\<rparr>)
   \<and> ((g0 = New_v1 ctx \<or> NewTimeout ctx d = Returned g0) \<longrightarrow>
       exec_v1 es' ([], g0) = Returned (out', g) \<longrightarrow> goroutine_v1 j g = Running (TimeoutTask d') \<longrightarrow>
         Wait_leave_v1 g = Blocked
         \<and> (\<not> errOnce_v1 g \<longrightarrow>
              (\<exists>g'. deadline_passes_v1 j g = Returned g' \<and> errOnce_v1 g'
                 \<and> err_v1 g' = Some DeadlineExceeded \<and> (\<exists>e. ctx_v1 g' = Some (Some e))))
         \<and> (ctx_v1 g = Some None \<longrightarrow> timeout_sees_done_v1 j g = Blocked)
         \<and> (ctx_v1 g = Some (Some e) \<longrightarrow>
              (\<exists>g'. timeout_sees_done_v1 j g = Returned g'
                 \<and> err_v1 g' = (if errOnce_v1 g then err_v1 g else Some e))))
   \<and> SetTimeout d cs gr1 = Returned ((getContext gr1)\<lparr>goroutines_v2 := goroutines_v2 gr1 @ [Timer d cs]\<rparr>)
   \<and> g_v2 ((getContext gr1)\<lparr>goroutines_v2 := goroutines_v2 gr1 @ [Timer d cs]\<rparr>) = g_v2 gr1
   \<and> ((gr0 = zero_v2 \<or> gr0 = New_v2 parent) \<longrightarrow> exec_v2 es ([], gr0) = Returned (out, gr) \<longrightarrow>
       goroutine_v2 i gr = Timer d cs \<longrightarrow>
         (Cause_v2 gr = None \<longrightarrow>
            timer_fires_v2 i gr
              = Returned (exit_v2 i (gr\<lparr>ctx_v2 := Some (Some (NewError DeadlineExceeded cs))\<rparr>))
            \<and> timer_sees_done_v2 i gr = Blocked)
         \<and> (Cause_v2 gr = Some c \<longrightarrow>
            timer_sees_done_v2 i gr = Returned (exit_v2 i gr)
            \<and> timer_fires_v2 i gr = Returned (exit_v2 i gr)))"
proof (intro conjI impI)
  show "NewTimeout ctx d = Go_v1 (TimeoutTask d) (New_v1 ctx)"
    by (simp add: NewTimeout_def)
next
  show "NewTimeout ctx d = Returned ((New_v1 ctx)\<lparr>wg_v1 := 1, goroutines_v1 := [Running (TimeoutTask d)]\<rparr>)"
    by (simp add: NewTimeout_def api_v1_defs New_v1_def)
next
  assume a: "g0 = New_v1 ctx \<or> NewTimeout ctx d = Returned g0"
    "exec_v1 es' ([], g0) = Returned (out', g)"
    and t: "goroutine_v1 j g = Running (TimeoutTask d')"
  note inv = reached_v1[OF a]
  note r = running_v1_counted[OF inv t]
  from r(1) show "Wait_leave_v1 g = Blocked"
    by (simp add: Wait_leave_v1_def)
  from r(4) obtain c0 where c0: "ctx_v1 g = Some c0" by auto
  {
    assume "\<not> errOnce_v1 g"
    with t r(2) c0
    show "\<exists>g'. deadline_passes_v1 j g = Returned g' \<and> errOnce_v1 g'
                 \<and> err_v1 g' = Some DeadlineExceeded \<and> (\<exists>e. ctx_v1 g' = Some (Some e))"
      by (auto simp: deadline_passes_v1_def finish_v1_reached[OF inv t] setResult_def
          call_cancel_v1_def cancelCause_def split: option.splits)
  next
    assume "ctx_v1 g = Some None"
    with t show "timeout_sees_done_v1 j g = Blocked"
      by (simp add: timeout_sees_done_v1_def)
  next
    assume "ctx_v1 g = Some (Some e)"
    with t r(2)
    show "\<exists>g'. timeout_sees_done_v1 j g = Returned g'
                 \<and> err_v1 g' = (if errOnce_v1 g then err_v1 g else Some e)"
      by (auto simp: timeout_sees_done_v1_def finish_v1_reached[OF inv t] setResult_def
          call_cancel_v1_def)
  }
next
  show "SetTimeout d cs gr1 = Returned ((getContext gr1)\<lparr>goroutines_v2 := goroutines_v2 gr1 @ [Timer d cs]\<rparr>)"
    by (simp add: SetTimeout_def getContext_def)
next
  show "g_v2 ((getContext gr1)\<lparr>goroutines_v2 := goroutines_v2 gr1 @ [Timer d cs]\<rparr>) = g_v2 gr1"
    by (simp add: getContext_def)
next
  assume a: "gr0 = zero_v2 \<or> gr0 = New_v2 parent" "exec_v2 es ([], gr0) = Returned (out, gr)"
    and t: "goroutine_v2 i gr = Timer d cs"
  note inv = reached_v2[OF a]
  note x = timer_v2_ctx[OF inv t]
  {
    assume n: "Cause_v2 gr = None"
    from Cause_v2_ctx[OF n x] have c: "ctx_v2 gr = Some None" .
    with t show "timer_fires_v2 i gr
              = Returned (exit_v2 i (gr\<lparr>ctx_v2 := Some (Some (NewError DeadlineExceeded cs))\<rparr>))"
      by (simp add: timer_fires_v2_def cancel_v2_def cancelCause_def)
    from c t show "timer_sees_done_v2 i gr = Blocked"
      by (simp add: timer_sees_done_v2_def)
  next
    assume "Cause_v2 gr = Some c"
    then have c: "ctx_v2 gr = Some (Some c)"
      by (auto simp: Cause_v2_def split: option.splits)
    with t show "timer_sees_done_v2 i gr = Returned (exit_v2 i gr)"
      by (simp add: timer_sees_done_v2_def)
    from c have "cancel_v2 (NewError DeadlineExceeded cs) gr = Returned gr"
      by (simp add: cancel_v2_def cancelCause_def)
    with t show "timer_fires_v2 i gr = Returned (exit_v2 i gr)"
      by (simp add: timer_fires_v2_def)
  }
qed

text \<open>The theorem at a v1 group made by \<^verbatim>\<open>NewTimeout\<close> and at a v2 zero value with a timeout.\<close>

theorem timeout_goroutine_witness:
  "NewTimeout Background 50
     = Returned ((New_v1 Background)\<lparr>wg_v1 := 1, goroutines_v1 := [Running (TimeoutTask 50)]\<rparr>)
   \<and> exec_v1 [CallGo_v1] ([], (New_v1 Background)\<lparr>wg_v1 := 1, goroutines_v1 := [Running (TimeoutTask 50)]\<rparr>)
       = Returned ([], (New_v1 Background)\<lparr>wg_v1 := 2,
            goroutines_v1 := [Running (TimeoutTask 50), Running UserTask_v1]\<rparr>)
   \<and> Wait_leave_v1 ((New_v1 Background)\<lparr>wg_v1 := 2,
            goroutines_v1 := [Running (TimeoutTask 50), Running UserTask_v1]\<rparr>) = Blocked
   \<and> deadline_passes_v1 0 ((New_v1 Background)\<lparr>wg_v1 := 2,
            goroutines_v1 := [Running (TimeoutTask 50), Running UserTask_v1]\<rparr>)
       = Returned ((New_v1 Background)\<lparr>wg_v1 := 1, goroutines_v1 := [Ended, Running UserTask_v1],
            errOnce_v1 := True, err_v1 := Some DeadlineExceeded, ctx_v1 := Some (Some Canceled)\<rparr>)
   \<and> exec_v2 [CallSetTimeout 5 ''s''] ([], zero_v2)
       = Returned ([], \<lparr>g_v2 = 0, ctx_v2 = Some None, goroutines_v2 = [Timer 5 ''s''], waiters_v2 = 0\<rparr>)
   \<and> timer_fires_v2 0 \<lparr>g_v2 = 0, ctx_v2 = Some None, goroutines_v2 = [Timer 5 ''s''], waiters_v2 = 0\<rparr>
       = Returned \<lparr>g_v2 = 0, ctx_v2 = Some (Some (Traced DeadlineExceeded ''s'')),
                   goroutines_v2 = [Exited], waiters_v2 = 0\<rparr>
   \<and> exec_v2 [CallSetTimeout 5 ''s'', CallCancel None ''t''] ([], zero_v2)
       = Returned ([], \<lparr>g_v2 = 0, ctx_v2 = Some (Some (Traced Canceled ''t'')),
                         goroutines_v2 = [Timer 5 ''s''], waiters_v2 = 0\<rparr>)
   \<and> timer_sees_done_v2 0 \<lparr>g_v2 = 0, ctx_v2 = Some (Some (Traced Canceled ''t'')),
                         goroutines_v2 = [Timer 5 ''s''], waiters_v2 = 0\<rparr>
       = Returned \<lparr>g_v2 = 0, ctx_v2 = Some (Some (Traced Canceled ''t'')),
                         goroutines_v2 = [Exited], waiters_v2 = 0\<rparr>"
proof -
  let ?g0 = "(New_v1 Background)\<lparr>wg_v1 := 1, goroutines_v1 := [Running (TimeoutTask 50)]\<rparr>"
  let ?g = "(New_v1 Background)\<lparr>wg_v1 := 2,
            goroutines_v1 := [Running (TimeoutTask 50), Running UserTask_v1]\<rparr>"
  let ?gr = "\<lparr>g_v2 = 0, ctx_v2 = Some None, goroutines_v2 = [Timer 5 ''s''], waiters_v2 = 0\<rparr>"
  let ?gc = "\<lparr>g_v2 = 0, ctx_v2 = Some (Some (Traced Canceled ''t'')),
                         goroutines_v2 = [Timer 5 ''s''], waiters_v2 = 0\<rparr>"
  note T = timeout_goroutine
  show ?thesis
    using T[where ctx = Background and d = 50 and ?g0.0 = ?g0 and es' = "[CallGo_v1]" and out' = "[]"
        and g = ?g and j = 0 and d' = 50 and e = Canceled and cs = "''s''" and ?gr1.0 = zero_v2
        and ?gr0.0 = zero_v2 and parent = None and es = "[]" and out = "[]" and gr = zero_v2
        and i = 0 and c = Canceled]
      T[where ctx = Background and d = 5 and ?g0.0 = ?g0 and es' = "[CallGo_v1]" and out' = "[]"
        and g = ?g and j = 0 and d' = 50 and e = Canceled and cs = "''s''" and ?gr1.0 = zero_v2
        and ?gr0.0 = zero_v2 and parent = None and es = "[CallSetTimeout 5 ''s'']" and out = "[]"
        and gr = ?gr and i = 0 and c = Canceled]
      T[where ctx = Background and d = 5 and ?g0.0 = ?g0 and es' = "[CallGo_v1]" and out' = "[]"
        and g = ?g and j = 0 and d' = 50 and e = Canceled and cs = "''s''" and ?gr1.0 = zero_v2
        and ?gr0.0 = zero_v2 and parent = None
        and es = "[CallSetTimeout 5 ''s'', CallCancel None ''t'']" and out = "[]"
        and gr = ?gc and i = 0 and c = "Traced Canceled ''t''"]
    by (simp add: api_v2_defs run_v2_defs zero_v2_def WithCancelCause_def Background_def
        silent_def cancelCause_def NewError_def Cause_v2_def
        api_v1_defs run_v1_defs New_v1_def WithCancel_def NewTimeout_def)
qed

text \<open>
  The claim as written fails on v2: \<^verbatim>\<open>Wait\<close> returns while the goroutine of \<^verbatim>\<open>SetTimeout\<close> is
  still there, so the completion count does not track it.
\<close>

theorem timeout_goroutine_counterexample:
  "exec_v2 [CallSetTimeout 5 ''s'', CallWait, WaitReturns] ([], zero_v2)
     = Returned ([None], \<lparr>g_v2 = 0, ctx_v2 = Some None, goroutines_v2 = [Timer 5 ''s''],
                          waiters_v2 = 0\<rparr>)"
  by (simp add: api_v2_defs zero_v2_def WithCancelCause_def Background_def silent_def visible_def)

section \<open>C6: cancel on success, cancel on error\<close>

text \<open>
  Claim C6. \<^verbatim>\<open>GoCancelOnSuccess\<close> and \<^verbatim>\<open>GoCancelOnError\<close> start a goroutine with their closure.
  In every state that an execution from a zero value or from a constructed group reaches, if
  the group is not cancelled: when the task of a cancel-on-success goroutine returns, the
  group is cancelled if and only if the task returned \<^verbatim>\<open>nil\<close> (the cause is then
  \<^verbatim>\<open>context.Canceled\<close> with the call site), and when the task of a cancel-on-error goroutine
  returns, the group is cancelled if and only if the task returned an error, which is then the
  cause (with the call site; \<^verbatim>\<open>errors.Is\<close> matches it). In both cases only this goroutine
  ends: every other goroutine is as it was.
\<close>

theorem cancel_on_success_and_on_error:
  "(GoCancelOnSuccess cs gr1 = Returned gr2 \<longrightarrow>
      goroutine_v2 (length (goroutines_v2 gr1)) gr2 = Tracked (OnSuccess cs))
   \<and> (GoCancelOnError cs gr1 = Returned gr2 \<longrightarrow>
      goroutine_v2 (length (goroutines_v2 gr1)) gr2 = Tracked (OnError cs))
   \<and> ((gr0 = zero_v2 \<or> gr0 = New_v2 parent) \<longrightarrow> exec_v2 es ([], gr0) = Returned (out, gr) \<longrightarrow>
       Cause_v2 gr = None \<longrightarrow> goroutine_v2 i gr = Tracked (OnSuccess cs) \<longrightarrow>
       (\<exists>gr'. task_returns_v2 i r gr = Returned gr'
          \<and> Cause_v2 gr' = (case r of None \<Rightarrow> Some (NewError Canceled cs) | Some e \<Rightarrow> None)
          \<and> ((Cause_v2 gr' \<noteq> None) = (r = None))
          \<and> goroutines_v2 gr' = (goroutines_v2 gr)[i := Exited]))
   \<and> ((gr0 = zero_v2 \<or> gr0 = New_v2 parent) \<longrightarrow> exec_v2 es ([], gr0) = Returned (out, gr) \<longrightarrow>
       Cause_v2 gr = None \<longrightarrow> goroutine_v2 i gr = Tracked (OnError cs) \<longrightarrow>
       (\<exists>gr'. task_returns_v2 i r gr = Returned gr'
          \<and> Cause_v2 gr' = (case r of None \<Rightarrow> None | Some e \<Rightarrow> Some (NewError e cs))
          \<and> ((Cause_v2 gr' \<noteq> None) = (r \<noteq> None))
          \<and> errors_Is (Cause_v2 gr') r
          \<and> goroutines_v2 gr' = (goroutines_v2 gr)[i := Exited]))"
proof (intro conjI impI)
  assume "GoCancelOnSuccess cs gr1 = Returned gr2"
  then show "goroutine_v2 (length (goroutines_v2 gr1)) gr2 = Tracked (OnSuccess cs)"
    by (auto simp: api_v2_defs goroutine_v2_def)
next
  assume "GoCancelOnError cs gr1 = Returned gr2"
  then show "goroutine_v2 (length (goroutines_v2 gr1)) gr2 = Tracked (OnError cs)"
    by (auto simp: api_v2_defs goroutine_v2_def)
next
  assume a: "gr0 = zero_v2 \<or> gr0 = New_v2 parent" "exec_v2 es ([], gr0) = Returned (out, gr)"
    and n: "Cause_v2 gr = None" and t: "goroutine_v2 i gr = Tracked (OnSuccess cs)"
  note inv = reached_v2[OF a]
  from Cause_v2_ctx[OF n tracked_v2_counted(2)[OF inv t]] have c: "ctx_v2 gr = Some None" .
  show "\<exists>gr'. task_returns_v2 i r gr = Returned gr'
          \<and> Cause_v2 gr' = (case r of None \<Rightarrow> Some (NewError Canceled cs) | Some e \<Rightarrow> None)
          \<and> ((Cause_v2 gr' \<noteq> None) = (r = None))
          \<and> goroutines_v2 gr' = (goroutines_v2 gr)[i := Exited]"
    using c by (cases r)
      (simp_all add: task_returns_v2_reached[OF inv t] cancel_v2_def cancelCause_def Cause_v2_def)
next
  assume a: "gr0 = zero_v2 \<or> gr0 = New_v2 parent" "exec_v2 es ([], gr0) = Returned (out, gr)"
    and n: "Cause_v2 gr = None" and t: "goroutine_v2 i gr = Tracked (OnError cs)"
  note inv = reached_v2[OF a]
  from Cause_v2_ctx[OF n tracked_v2_counted(2)[OF inv t]] have c: "ctx_v2 gr = Some None" .
  show "\<exists>gr'. task_returns_v2 i r gr = Returned gr'
          \<and> Cause_v2 gr' = (case r of None \<Rightarrow> None | Some e \<Rightarrow> Some (NewError e cs))
          \<and> ((Cause_v2 gr' \<noteq> None) = (r \<noteq> None))
          \<and> errors_Is (Cause_v2 gr') r
          \<and> goroutines_v2 gr' = (goroutines_v2 gr)[i := Exited]"
    using c by (cases r)
      (simp_all add: task_returns_v2_reached[OF inv t] cancel_v2_def cancelCause_def Cause_v2_def
        errors_Is_def NewError_def unwrap_Is_refl)
qed

text \<open>The theorem at a zero value with a plain task, a cancel-on-success and a cancel-on-error task.\<close>

theorem cancel_on_success_and_on_error_witness:
  "GoCancelOnSuccess ''s'' zero_v2 = Returned \<lparr>g_v2 = 1, ctx_v2 = Some None,
       goroutines_v2 = [Tracked (OnSuccess ''s'')], waiters_v2 = 0\<rparr>
   \<and> GoCancelOnError ''t'' zero_v2 = Returned \<lparr>g_v2 = 1, ctx_v2 = Some None,
       goroutines_v2 = [Tracked (OnError ''t'')], waiters_v2 = 0\<rparr>
   \<and> exec_v2 [CallGo, CallGoCancelOnSuccess ''s'', CallGoCancelOnError ''t''] ([], zero_v2)
       = Returned ([], \<lparr>g_v2 = 3, ctx_v2 = Some None,
           goroutines_v2 = [Tracked UserTask, Tracked (OnSuccess ''s''), Tracked (OnError ''t'')],
           waiters_v2 = 0\<rparr>)
   \<and> task_returns_v2 1 (Some (Failure ''stop''))
        \<lparr>g_v2 = 3, ctx_v2 = Some None,
           goroutines_v2 = [Tracked UserTask, Tracked (OnSuccess ''s''), Tracked (OnError ''t'')],
           waiters_v2 = 0\<rparr>
       = Returned \<lparr>g_v2 = 2, ctx_v2 = Some None,
           goroutines_v2 = [Tracked UserTask, Exited, Tracked (OnError ''t'')], waiters_v2 = 0\<rparr>
   \<and> task_returns_v2 2 None
        \<lparr>g_v2 = 3, ctx_v2 = Some None,
           goroutines_v2 = [Tracked UserTask, Tracked (OnSuccess ''s''), Tracked (OnError ''t'')],
           waiters_v2 = 0\<rparr>
       = Returned \<lparr>g_v2 = 2, ctx_v2 = Some None,
           goroutines_v2 = [Tracked UserTask, Tracked (OnSuccess ''s''), Exited], waiters_v2 = 0\<rparr>
   \<and> task_returns_v2 2 (Some (Failure ''stop''))
        \<lparr>g_v2 = 3, ctx_v2 = Some None,
           goroutines_v2 = [Tracked UserTask, Tracked (OnSuccess ''s''), Tracked (OnError ''t'')],
           waiters_v2 = 0\<rparr>
       = Returned \<lparr>g_v2 = 2, ctx_v2 = Some (Some (Traced (Failure ''stop'') ''t'')),
           goroutines_v2 = [Tracked UserTask, Tracked (OnSuccess ''s''), Exited], waiters_v2 = 0\<rparr>"
proof -
  let ?gr = "\<lparr>g_v2 = 3, ctx_v2 = Some None,
           goroutines_v2 = [Tracked UserTask, Tracked (OnSuccess ''s''), Tracked (OnError ''t'')],
           waiters_v2 = 0\<rparr>"
  let ?es = "[CallGo, CallGoCancelOnSuccess ''s'', CallGoCancelOnError ''t'']"
  note T = cancel_on_success_and_on_error
  show ?thesis
    using T[where ?gr1.0 = zero_v2 and ?gr2.0 = "\<lparr>g_v2 = 1, ctx_v2 = Some None,
           goroutines_v2 = [Tracked (OnSuccess ''s'')], waiters_v2 = 0\<rparr>" and cs = "''s''"
        and ?gr0.0 = zero_v2 and parent = None and es = ?es and out = "[]" and gr = ?gr
        and i = 1 and r = "Some (Failure ''stop'')"]
      T[where ?gr1.0 = zero_v2 and ?gr2.0 = "\<lparr>g_v2 = 1, ctx_v2 = Some None,
           goroutines_v2 = [Tracked (OnError ''t'')], waiters_v2 = 0\<rparr>" and cs = "''t''"
        and ?gr0.0 = zero_v2 and parent = None and es = ?es and out = "[]" and gr = ?gr
        and i = 2 and r = "Some (Failure ''stop'')"]
    by (simp add: api_v2_defs run_v2_defs zero_v2_def WithCancelCause_def Background_def
        silent_def cancelCause_def NewError_def Cause_v2_def errors_Is_def)
qed

section \<open>C7: cancel when the task returns\<close>

text \<open>
  Claim C7, as the code has it. In v2, when the task of a \<^verbatim>\<open>GoCancelOnFinish\<close> goroutine
  returns on a group that is not cancelled, the group is cancelled whatever the outcome: the
  cause is \<^verbatim>\<open>context.Canceled\<close> for a \<^verbatim>\<open>nil\<close> return and the task's error otherwise, with the
  call site. In v1, when a task started by \<^verbatim>\<open>Go\<close> returns on a group without a result, the
  context is cancelled whatever the outcome and the returned value is recorded as it is: \<^verbatim>\<open>nil\<close>
  for a \<^verbatim>\<open>nil\<close> return, the task's error otherwise.
\<close>

theorem cancel_when_task_returns:
  "(GoCancelOnFinish cs gr1 = Returned gr2 \<longrightarrow>
      goroutine_v2 (length (goroutines_v2 gr1)) gr2 = Tracked (OnFinish cs))
   \<and> ((gr0 = zero_v2 \<or> gr0 = New_v2 parent) \<longrightarrow> exec_v2 es ([], gr0) = Returned (out, gr) \<longrightarrow>
       Cause_v2 gr = None \<longrightarrow> goroutine_v2 i gr = Tracked (OnFinish cs) \<longrightarrow>
       (\<exists>gr'. task_returns_v2 i r gr = Returned gr'
          \<and> Cause_v2 gr' = Some (NewError (case r of None \<Rightarrow> Canceled | Some e \<Rightarrow> e) cs)
          \<and> errors_Is (Cause_v2 gr') (Some (case r of None \<Rightarrow> Canceled | Some e \<Rightarrow> e))))
   \<and> ((g0 = New_v1 ctx \<or> NewTimeout ctx d = Returned g0) \<longrightarrow>
       exec_v1 es' ([], g0) = Returned (out', g) \<longrightarrow>
       \<not> errOnce_v1 g \<longrightarrow> goroutine_v1 j g = Running UserTask_v1 \<longrightarrow>
       (\<exists>g'. task_returns_v1 j r g = Returned g'
          \<and> errOnce_v1 g' \<and> err_v1 g' = r
          \<and> ctx_v1 g' = map_option (cancelCause None) (ctx_v1 g)
          \<and> (\<exists>e. ctx_v1 g' = Some (Some e))))"
proof (intro conjI impI)
  assume "GoCancelOnFinish cs gr1 = Returned gr2"
  then show "goroutine_v2 (length (goroutines_v2 gr1)) gr2 = Tracked (OnFinish cs)"
    by (auto simp: api_v2_defs goroutine_v2_def)
next
  assume a: "gr0 = zero_v2 \<or> gr0 = New_v2 parent" "exec_v2 es ([], gr0) = Returned (out, gr)"
    and n: "Cause_v2 gr = None" and t: "goroutine_v2 i gr = Tracked (OnFinish cs)"
  note inv = reached_v2[OF a]
  from Cause_v2_ctx[OF n tracked_v2_counted(2)[OF inv t]] have c: "ctx_v2 gr = Some None" .
  show "\<exists>gr'. task_returns_v2 i r gr = Returned gr'
          \<and> Cause_v2 gr' = Some (NewError (case r of None \<Rightarrow> Canceled | Some e \<Rightarrow> e) cs)
          \<and> errors_Is (Cause_v2 gr') (Some (case r of None \<Rightarrow> Canceled | Some e \<Rightarrow> e))"
    using c by (cases r)
      (simp_all add: task_returns_v2_reached[OF inv t] cancel_v2_def cancelCause_def Cause_v2_def
        errors_Is_def NewError_def unwrap_Is_refl)
next
  assume a: "g0 = New_v1 ctx \<or> NewTimeout ctx d = Returned g0"
    "exec_v1 es' ([], g0) = Returned (out', g)"
    and n: "\<not> errOnce_v1 g" and t: "goroutine_v1 j g = Running UserTask_v1"
  note inv = reached_v1[OF a]
  from running_v1_counted[OF inv t] obtain c where c: "ctx_v1 g = Some c" and i: "cancel_v1 g"
    by auto
  show "\<exists>g'. task_returns_v1 j r g = Returned g'
          \<and> errOnce_v1 g' \<and> err_v1 g' = r
          \<and> ctx_v1 g' = map_option (cancelCause None) (ctx_v1 g)
          \<and> (\<exists>e. ctx_v1 g' = Some (Some e))"
    using c i n t
    by (auto simp: task_returns_v1_def finish_v1_reached[OF inv t] setResult_def call_cancel_v1_def
        cancelCause_def split: option.splits)
qed

text \<open>The theorem at a v2 zero value and at a fresh v1 group, each with one task returning \<^verbatim>\<open>nil\<close>.\<close>

theorem cancel_when_task_returns_witness:
  "GoCancelOnFinish ''s'' zero_v2 = Returned \<lparr>g_v2 = 1, ctx_v2 = Some None,
       goroutines_v2 = [Tracked (OnFinish ''s'')], waiters_v2 = 0\<rparr>
   \<and> exec_v2 [CallGoCancelOnFinish ''s''] ([], zero_v2)
       = Returned ([], \<lparr>g_v2 = 1, ctx_v2 = Some None,
           goroutines_v2 = [Tracked (OnFinish ''s'')], waiters_v2 = 0\<rparr>)
   \<and> task_returns_v2 0 None \<lparr>g_v2 = 1, ctx_v2 = Some None,
           goroutines_v2 = [Tracked (OnFinish ''s'')], waiters_v2 = 0\<rparr>
       = Returned \<lparr>g_v2 = 0, ctx_v2 = Some (Some (Traced Canceled ''s'')),
           goroutines_v2 = [Exited], waiters_v2 = 0\<rparr>
   \<and> exec_v1 [CallGo_v1] ([], New_v1 Background)
       = Returned ([], (New_v1 Background)\<lparr>wg_v1 := 1, goroutines_v1 := [Running UserTask_v1]\<rparr>)
   \<and> task_returns_v1 0 None ((New_v1 Background)\<lparr>wg_v1 := 1, goroutines_v1 := [Running UserTask_v1]\<rparr>)
       = Returned ((New_v1 Background)\<lparr>wg_v1 := 0, goroutines_v1 := [Ended], errOnce_v1 := True,
            err_v1 := None, ctx_v1 := Some (Some Canceled)\<rparr>)"
proof -
  let ?gr = "\<lparr>g_v2 = 1, ctx_v2 = Some None,
           goroutines_v2 = [Tracked (OnFinish ''s'')], waiters_v2 = 0\<rparr>"
  let ?g = "(New_v1 Background)\<lparr>wg_v1 := 1, goroutines_v1 := [Running UserTask_v1]\<rparr>"
  show ?thesis
    using cancel_when_task_returns[where ?gr1.0 = zero_v2 and ?gr2.0 = ?gr and cs = "''s''"
        and ?gr0.0 = zero_v2 and parent = None and es = "[CallGoCancelOnFinish ''s'']" and out = "[]"
        and gr = ?gr and i = 0 and r = None and ?g0.0 = "New_v1 Background" and ctx = Background
        and d = 0 and es' = "[CallGo_v1]" and out' = "[]" and g = ?g and j = 0]
    by (simp add: api_v2_defs run_v2_defs zero_v2_def WithCancelCause_def Background_def
        silent_def cancelCause_def NewError_def Cause_v2_def errors_Is_def
        api_v1_defs run_v1_defs New_v1_def WithCancel_def)
qed

text \<open>
  The claim as written fails on v1: after a task returned \<^verbatim>\<open>nil\<close>, \<^verbatim>\<open>Wait\<close> returns \<^verbatim>\<open>nil\<close>, which
  does not match \<^verbatim>\<open>context.Canceled\<close>.
\<close>

theorem cancel_when_task_returns_counterexample:
  "exec_v1 [CallGo_v1, TaskReturns_v1 0 None, CallWait_v1, WaitReturns_v1] ([], New_v1 Background)
     = Returned ([None],
         \<lparr>ctx_v1 = Some (Some Canceled), cancel_v1 = True, wg_v1 = 0, errOnce_v1 = True,
          err_v1 = None, doNotReuse_v1 = True, goroutines_v1 = [Ended], waiters_v1 = 0\<rparr>)
   \<and> \<not> errors_Is None (Some Canceled)"
  by (simp add: api_v1_defs run_v1_defs New_v1_def WithCancel_def Background_def silent_def
      visible_def cancelCause_def errors_Is_def)

section \<open>C8: Cancel with a nil cause\<close>

text \<open>
  Claim C8. On a v2 group that is not cancelled, \<^verbatim>\<open>Cancel(nil)\<close> records \<^verbatim>\<open>context.Canceled\<close>
  (with the call site); whatever follows, the recorded cause stays that, and every value
  \<^verbatim>\<open>Wait\<close> returns is that error: not \<^verbatim>\<open>nil\<close>, and matched by \<^verbatim>\<open>errors.Is\<close> against
  \<^verbatim>\<open>context.Canceled\<close>. The \<^verbatim>\<open>Cancel\<close> of v1 takes no cause: on a constructed group without a
  result it records \<^verbatim>\<open>context.Canceled\<close>, which every later \<^verbatim>\<open>Wait\<close> returns.
\<close>

theorem nil_cause_is_Canceled:
  "(Cause_v2 gr = None \<longrightarrow>
      Cancel_v2 None cs gr = Returned (gr\<lparr>ctx_v2 := Some (Some (NewError Canceled cs))\<rparr>))
   \<and> (Cause_v2 gr = None \<longrightarrow> exec_v2 (CallCancel None cs # es) ([], gr) = Returned (out, gr') \<longrightarrow>
        Cause_v2 gr' = Some (NewError Canceled cs)
        \<and> (\<forall>r \<in> set out. r = Some (NewError Canceled cs) \<and> r \<noteq> None \<and> errors_Is r (Some Canceled)))
   \<and> (cancel_v1 g \<longrightarrow> \<not> errOnce_v1 g \<longrightarrow> exec_v1 (CallCancel_v1 # es') ([], g) = Returned (out'', g') \<longrightarrow>
        err_v1 g' = Some Canceled
        \<and> (\<forall>r \<in> set out''. r = Some Canceled \<and> errors_Is r (Some Canceled)))"
proof (intro conjI impI)
  assume "Cause_v2 gr = None"
  from Cancel_v2_first[OF this, of None cs]
  show "Cancel_v2 None cs gr = Returned (gr\<lparr>ctx_v2 := Some (Some (NewError Canceled cs))\<rparr>)"
    by simp
next
  assume a: "Cause_v2 gr = None" "exec_v2 (CallCancel None cs # es) ([], gr) = Returned (out, gr')"
  from CallCancel_first[OF a]
  have c: "ctx_v2 gr' = Some (Some (NewError Canceled cs))"
    and o: "set out \<subseteq> {Some (NewError Canceled cs)}"
    by auto
  from c show "Cause_v2 gr' = Some (NewError Canceled cs)"
    by (simp add: Cause_v2_def)
  from o show "\<forall>r \<in> set out. r = Some (NewError Canceled cs) \<and> r \<noteq> None \<and> errors_Is r (Some Canceled)"
    by (auto simp: errors_Is_def NewError_def)
next
  assume a: "cancel_v1 g" "\<not> errOnce_v1 g"
    "exec_v1 (CallCancel_v1 # es') ([], g) = Returned (out'', g')"
  from CallCancel_v1_first[OF a]
  show "err_v1 g' = Some Canceled"
    and "\<forall>r \<in> set out''. r = Some Canceled \<and> errors_Is r (Some Canceled)"
    by (auto simp: errors_Is_def)
qed

text \<open>The theorem at fresh groups of both packages.\<close>

theorem nil_cause_is_Canceled_witness:
  "Cause_v2 (New_v2 Background) = None
   \<and> exec_v2 [CallCancel None ''s'', CallWait, WaitReturns] ([], New_v2 Background)
       = Returned ([Some (Traced Canceled ''s'')], New_v2 (Some (Traced Canceled ''s'')))
   \<and> errors_Is (Some (Traced Canceled ''s'')) (Some Canceled)
   \<and> cancel_v1 (New_v1 Background) \<and> \<not> errOnce_v1 (New_v1 Background)
   \<and> exec_v1 [CallCancel_v1, CallWait_v1, WaitReturns_v1] ([], New_v1 Background)
       = Returned ([Some Canceled],
           (New_v1 Background)\<lparr>errOnce_v1 := True, err_v1 := Some Canceled,
              ctx_v1 := Some (Some Canceled), doNotReuse_v1 := True\<rparr>)"
  using nil_cause_is_Canceled[where gr = "New_v2 Background" and cs = "''s''"
      and es = "[CallWait, WaitReturns]" and out = "[Some (Traced Canceled ''s'')]"
      and gr' = "New_v2 (Some (Traced Canceled ''s''))" and g = "New_v1 Background"
      and es' = "[CallWait_v1, WaitReturns_v1]" and out'' = "[Some Canceled]"
      and g' = "(New_v1 Background)\<lparr>errOnce_v1 := True, err_v1 := Some Canceled,
              ctx_v1 := Some (Some Canceled), doNotReuse_v1 := True\<rparr>"]
  by (simp add: api_v2_defs api_v1_defs New_v2_def New_v1_def WithCancelCause_def
        WithCancel_def Background_def silent_def visible_def cancelCause_def NewError_def
        Cause_v2_def errors_Is_def)

section \<open>C9: the call site does not change what the cause matches\<close>



section \<open>C10: waiting again\<close>



end
